theory Spec2Isabelle
  imports Main
begin

section \<open>Locations of Lines: the line generator \<open>LineFactory\<close>\<close>

text \<open>
  A shallow embedding of the class \<open>LineFactory\<close> of \<open>locations_of_lines.py\<close>:
  its constructor, \<open>make_lines\<close>, \<open>_generate_row_col_lines\<close> and
  \<open>_generate_all_lines\<close>. Python integers are \<open>int\<close>; one-dimensional numpy
  arrays are lists; an array of shape \<open>(k, 2)\<close> is a list of pairs. The source writes
  no \<open>raise\<close> of its own: every exception comes from numpy or from the interpreter,
  and each is a branch of the model.
\<close>

subsection \<open>Exceptions\<close>

text \<open>
  \<open>ValueError\<close> carries the library's message, \<open>UnboundLocalError\<close> the name of the
  local variable that was read before it was assigned. The three messages are numpy's and
  Python's own (the wording of the first and the third has changed between numpy
  releases); the source contains no message text at all.
\<close>

datatype error = ValueError string | UnboundLocalError string

definition empty_choice_message :: string where
  "empty_choice_message = '''a' cannot be empty unless no samples are taken''"

definition zero_step_message :: string where
  "zero_step_message = ''slice step cannot be zero''"

definition shape_mismatch_message :: string where
  "shape_mismatch_message =
     ''all the input array dimensions except for the concatenation axis must match exactly''"

subsection \<open>The numpy operations the class uses\<close>

text \<open>\<open>np.arange(n)\<close>: the integers \<open>0, ..., n - 1\<close>; empty when \<open>n \<le> 0\<close>.\<close>

definition np_arange :: "int \<Rightarrow> int list" where
  "np_arange n = map int [0..<nat n]"

text \<open>
  The slice \<open>a[start::step]\<close> (the stop is omitted everywhere in the source), with the
  index adjustment of Python: a negative start counts from the end, a start beyond either
  end is clipped, a negative step walks downwards from the last element, and a zero step
  raises.
\<close>

definition slice_from :: "int list \<Rightarrow> int option \<Rightarrow> int \<Rightarrow> error + int list" where
  "slice_from a start step =
     (let n = int (length a) in
      if step = 0 then Inl (ValueError zero_step_message)
      else if 0 < step then
        (let lo = (case start of None \<Rightarrow> 0
                   | Some i \<Rightarrow> if i < 0 then max (i + n) 0 else min i n);
             cnt = (if lo < n then (n - lo - 1) div step + 1 else 0)
         in Inr (map (\<lambda>k. a ! nat (lo + int k * step)) [0..<nat cnt]))
      else
        (let hi = (case start of None \<Rightarrow> n - 1
                   | Some i \<Rightarrow> if i < 0 then max (i + n) (- 1) else min i (n - 1));
             cnt = (if - 1 < hi then hi div (- step) + 1 else 0)
         in Inr (map (\<lambda>k. a ! nat (hi + int k * step)) [0..<nat cnt])))"

text \<open>
  The random source. \<open>np.random.choice(a)\<close> returns one element of the array \<open>a\<close> and
  advances the generator's state; it raises on an empty array. A source is a function from
  the generator's state and the array to the chosen element and the next state, and it is
  valid when it always chooses an element of the array it is given.
\<close>

type_synonym 'g jitter_source = "'g \<Rightarrow> int list \<Rightarrow> int \<times> 'g"

definition valid_source :: "'g jitter_source \<Rightarrow> bool" where
  "valid_source src = (\<forall>g a. a \<noteq> [] \<longrightarrow> fst (src g a) \<in> set a)"

definition random_choice :: "'g jitter_source \<Rightarrow> int list \<Rightarrow> 'g \<Rightarrow> error + int \<times> 'g" where
  "random_choice src a g =
     (if a = [] then Inl (ValueError empty_choice_message) else Inr (src g a))"

text \<open>
  \<open>np.vstack((c1, c2)).T\<close>: the rows \<open>[c1[i], c2[i]]\<close>; the two arrays must have the same
  length.
\<close>

definition vstack_T :: "int list \<Rightarrow> int list \<Rightarrow> error + (int \<times> int) list" where
  "vstack_T c1 c2 =
     (if length c1 = length c2 then Inr (zip c1 c2)
      else Inl (ValueError shape_mismatch_message))"

subsection \<open>The object\<close>

text \<open>
  The attributes of a \<open>LineFactory\<close>. The four line attributes are assigned by
  \<open>make_lines\<close> only; the constructor starts them empty here, and nothing reads them before
  \<open>make_lines\<close> has assigned them. \<open>np.ones(shape) * iter\<close> is an array of floats; its
  entries are integers below 3000, which a float holds exactly, so they are \<open>int\<close> here.
\<close>

record LineFactory =
  number_of_rows_cols :: int
  rows_cols :: "int list"
  line_length :: int
  line_gap :: int
  row_density :: int
  column_density :: int
  horizontal_lines_xs :: "(int \<times> int) list"
  horizontal_lines_ys :: "(int \<times> int) list"
  vertical_lines_ys :: "(int \<times> int) list"
  vertical_lines_xs :: "(int \<times> int) list"

type_synonym lines = "(int \<times> int) list \<times> (int \<times> int) list"

subsection \<open>\<open>_generate_row_col_lines\<close>\<close>

definition generate_row_col_lines ::
  "'g jitter_source \<Rightarrow> LineFactory \<Rightarrow> int \<Rightarrow> 'g \<Rightarrow> error + lines \<times> 'g" where
  "generate_row_col_lines src self iter g =
     (case random_choice src (np_arange (line_length self + line_gap self)) g of
        Inl e \<Rightarrow> Inl e
      | Inr (start_jitter, g') \<Rightarrow>
     (case slice_from (rows_cols self) (Some start_jitter)
             (line_gap self + line_length self) of
        Inl e \<Rightarrow> Inl e
      | Inr coordinates1 \<Rightarrow>
     (case slice_from (rows_cols self) (Some (start_jitter + line_length self))
             (line_gap self + line_length self) of
        Inl e \<Rightarrow> Inl e
      | Inr coordinates2 \<Rightarrow>
     (case vstack_T
             (if length coordinates1 > length coordinates2 then butlast coordinates1
              else coordinates1)
             coordinates2 of
        Inl e \<Rightarrow> Inl e
      | Inr lines1 \<Rightarrow> Inr ((lines1, map (\<lambda>_. (iter, iter)) lines1), g')))))"

subsection \<open>\<open>_generate_all_lines\<close>\<close>

text \<open>
  The \<open>for\<close> loop over the selected rows or columns. The locals \<open>lines1\<close> and \<open>lines2\<close>
  are unbound until the iteration with \<open>row_col == 0\<close> assigns them, so they are an
  option here; an iteration with another index reads them after its row is generated.
\<close>

fun all_lines_loop ::
  "'g jitter_source \<Rightarrow> LineFactory \<Rightarrow> int list \<Rightarrow> lines option \<Rightarrow> 'g
     \<Rightarrow> error + lines option \<times> 'g" where
  "all_lines_loop src self [] acc g = Inr (acc, g)"
| "all_lines_loop src self (row_col # rest) acc g =
     (case generate_row_col_lines src self row_col g of
        Inl e \<Rightarrow> Inl e
      | Inr ((a, b), g') \<Rightarrow>
          if row_col = 0 then all_lines_loop src self rest (Some (a, b)) g'
          else (case acc of
                  None \<Rightarrow> Inl (UnboundLocalError ''lines1'')
                | Some (lines1, lines2) \<Rightarrow>
                    all_lines_loop src self rest (Some (lines1 @ a, lines2 @ b)) g'))"

definition generate_all_lines ::
  "'g jitter_source \<Rightarrow> LineFactory \<Rightarrow> bool \<Rightarrow> 'g \<Rightarrow> error + lines \<times> 'g" where
  "generate_all_lines src self horizontal g =
     (let density = (if horizontal then row_density self else column_density self) in
      case slice_from (rows_cols self) None density of
        Inl e \<Rightarrow> Inl e
      | Inr selected \<Rightarrow>
     (case all_lines_loop src self selected None g of
        Inl e \<Rightarrow> Inl e
      | Inr (None, g') \<Rightarrow> Inl (UnboundLocalError ''lines1'')
      | Inr (Some (lines1, lines2), g') \<Rightarrow> Inr ((lines1, lines2), g')))"

subsection \<open>\<open>make_lines\<close> and the constructor\<close>

text \<open>
  An argument of \<open>make_lines\<close> is \<open>None\<close> when omitted. The tests \<open>if line_length:\<close>
  and its three siblings are Python truth tests: \<open>None\<close> and \<open>0\<close> are false, every other
  integer is true. \<open>store_arguments\<close> is the four conditional assignments that open
  \<open>make_lines\<close>.
\<close>

definition store_arguments ::
  "int option \<Rightarrow> int option \<Rightarrow> int option \<Rightarrow> int option \<Rightarrow> LineFactory \<Rightarrow> LineFactory" where
  "store_arguments ll lg rd cd self =
     (let self = (case ll of Some v \<Rightarrow> if v \<noteq> 0 then self\<lparr>line_length := v\<rparr> else self
                  | None \<Rightarrow> self);
          self = (case lg of Some v \<Rightarrow> if v \<noteq> 0 then self\<lparr>line_gap := v\<rparr> else self
                  | None \<Rightarrow> self);
          self = (case rd of Some v \<Rightarrow> if v \<noteq> 0 then self\<lparr>row_density := 100 - v\<rparr> else self
                  | None \<Rightarrow> self);
          self = (case cd of Some v \<Rightarrow> if v \<noteq> 0 then self\<lparr>column_density := 100 - v\<rparr> else self
                  | None \<Rightarrow> self)
      in self)"

text \<open>
  \<open>make_lines\<close> mutates the object, so an exception leaves the object as it was when the
  exception was raised: the result is \<open>Inl\<close> of the exception and that object, or \<open>Inr\<close>
  of the object and the random source's state on return.
\<close>

definition make_lines ::
  "'g jitter_source \<Rightarrow> int option \<Rightarrow> int option \<Rightarrow> int option \<Rightarrow> int option
     \<Rightarrow> LineFactory \<Rightarrow> 'g \<Rightarrow> error \<times> LineFactory + LineFactory \<times> 'g" where
  "make_lines src ll lg rd cd self0 g =
     (let self = store_arguments ll lg rd cd self0 in
      case generate_all_lines src self True g of
        Inl e \<Rightarrow> Inl (e, self)
      | Inr ((xs, ys), g1) \<Rightarrow>
     (let self = self\<lparr>horizontal_lines_xs := xs, horizontal_lines_ys := ys\<rparr> in
      case generate_all_lines src self False g1 of
        Inl e \<Rightarrow> Inl (e, self)
      | Inr ((ys, xs), g2) \<Rightarrow>
          Inr (self\<lparr>vertical_lines_ys := ys, vertical_lines_xs := xs\<rparr>, g2)))"

text \<open>
  The constructor, with the source's argument order: \<open>initial_attributes\<close> is the object
  after the assignments that precede the call of \<open>make_lines\<close>. When \<open>make_lines\<close>
  raises, the exception leaves the constructor and no object exists.
\<close>

definition initial_attributes :: "int \<Rightarrow> int \<Rightarrow> int \<Rightarrow> int \<Rightarrow> LineFactory" where
  "initial_attributes ll lg cd rd =
     \<lparr> number_of_rows_cols = 1000,
       rows_cols = np_arange (1000 * 3),
       line_length = ll,
       line_gap = lg,
       row_density = 100 - rd,
       column_density = 100 - cd,
       horizontal_lines_xs = [],
       horizontal_lines_ys = [],
       vertical_lines_ys = [],
       vertical_lines_xs = [] \<rparr>"

definition LineFactory_init ::
  "'g jitter_source \<Rightarrow> int \<Rightarrow> int \<Rightarrow> int \<Rightarrow> int \<Rightarrow> 'g \<Rightarrow> error + LineFactory \<times> 'g" where
  "LineFactory_init src ll lg cd rd g =
     (case make_lines src None None None None (initial_attributes ll lg cd rd) g of
        Inl (e, _) \<Rightarrow> Inl e
      | Inr (self, g') \<Rightarrow> Inr (self, g'))"

subsection \<open>Closed forms of the slices and of the loop\<close>

text \<open>
  These are not in the source: they describe what the source computes on the array
  \<open>np.arange(n)\<close>, and the lemmas below prove that it does. \<open>count_from n j step\<close> is the
  number of elements of \<open>np.arange(n)[j::step]\<close> for a start \<open>j \<ge> 0\<close>.
\<close>

definition count_from :: "int \<Rightarrow> int \<Rightarrow> int \<Rightarrow> nat" where
  "count_from n j step = (if j < n then nat ((n - j - 1) div step + 1) else 0)"

text \<open>The segments of one row or column drawn with jitter \<open>j\<close>, and its orthogonal pairs.\<close>

definition row_segments :: "int \<Rightarrow> int \<Rightarrow> int \<Rightarrow> int \<Rightarrow> (int \<times> int) list" where
  "row_segments n L G j =
     map (\<lambda>k. (j + int k * (L + G), j + L + int k * (L + G)))
       [0..<count_from n (j + L) (L + G)]"

definition row_marks :: "int \<Rightarrow> int \<Rightarrow> int \<Rightarrow> int \<Rightarrow> int \<Rightarrow> (int \<times> int) list" where
  "row_marks n L G row_col j = replicate (length (row_segments n L G j)) (row_col, row_col)"

text \<open>The indices \<open>np.arange(n)[::d]\<close> for a positive step \<open>d\<close>.\<close>

definition selected_indices :: "int \<Rightarrow> int \<Rightarrow> int list" where
  "selected_indices n d = map (\<lambda>k. int k * d) [0..<count_from n 0 d]"

text \<open>The first \<open>k\<close> choices a source makes from the array \<open>a\<close>, and its state after them.\<close>

fun draws :: "'g jitter_source \<Rightarrow> int list \<Rightarrow> nat \<Rightarrow> 'g \<Rightarrow> int list \<times> 'g" where
  "draws src a 0 g = ([], g)"
| "draws src a (Suc k) g =
     (fst (src g a) # fst (draws src a k (snd (src g a))),
      snd (draws src a k (snd (src g a))))"

text \<open>The object a call of \<open>make_lines\<close> leaves behind, whether it returned or raised.\<close>

definition object_after :: "error \<times> LineFactory + LineFactory \<times> 'g \<Rightarrow> LineFactory" where
  "object_after r = (case r of Inl (e, self) \<Rightarrow> self | Inr (self, g) \<Rightarrow> self)"

text \<open>
  Two deterministic sources: one always chooses the first element of the array and has no
  state; the other walks through the array, one position further at every call.
\<close>

definition first_source :: "unit jitter_source" where
  "first_source g a = (case a of [] \<Rightarrow> 0 | x # _ \<Rightarrow> x, g)"

definition counting_source :: "nat jitter_source" where
  "counting_source g a = (a ! (g mod length a), Suc g)"

text \<open>Every coordinate an object's four line attributes hold.\<close>

definition all_coordinates :: "LineFactory \<Rightarrow> int set" where
  "all_coordinates self =
     (\<Union>(a, b) \<in> set (horizontal_lines_xs self) \<union> set (horizontal_lines_ys self)
                 \<union> set (vertical_lines_ys self) \<union> set (vertical_lines_xs self). {a, b})"

section \<open>Slices of \<open>np.arange(n)\<close>\<close>

lemma length_np_arange: "length (np_arange n) = nat n"
  by (simp add: np_arange_def)

lemma np_arange_nth: "i < nat n \<Longrightarrow> np_arange n ! i = int i"
  by (simp add: np_arange_def)

lemma set_np_arange: "set (np_arange n) = {0..<n}"
proof
  show "set (np_arange n) \<subseteq> {0..<n}"
    by (auto simp: np_arange_def)
next
  show "{0..<n} \<subseteq> set (np_arange n)"
  proof
    fix x assume "x \<in> {0..<n}"
    then have "nat x \<in> {0..<nat n}" and "x = int (nat x)" by auto
    then show "x \<in> set (np_arange n)"
      unfolding np_arange_def by (metis image_eqI set_map set_upt)
  qed
qed

lemma stride_in_range:
  assumes "0 < step" "0 \<le> lo" "lo < n" "int k < (n - lo - 1) div step + 1"
  shows "lo + int k * step < n"
proof -
  have "int k \<le> (n - lo - 1) div step" using assms by linarith
  then have "int k * step \<le> ((n - lo - 1) div step) * step"
    using assms(1) by (simp add: mult_right_mono)
  also have "\<dots> \<le> n - lo - 1"
    using assms(1) by (metis div_mult_mod_eq le_add_same_cancel1 pos_mod_sign)
  finally show ?thesis by linarith
qed

lemma stride_down_in_range:
  assumes "step < 0" "0 \<le> hi" "int k < hi div (- step) + 1"
  shows "0 \<le> hi + int k * step"
proof -
  have "int k \<le> hi div (- step)" using assms by linarith
  then have "int k * (- step) \<le> (hi div (- step)) * (- step)"
    using assms(1) by (simp add: mult_right_mono)
  also have "\<dots> \<le> hi"
    using assms(1) by (metis div_mult_mod_eq le_add_same_cancel1 pos_mod_sign neg_0_less_iff_less)
  finally show ?thesis by simp
qed

lemma slice_from_subset:
  assumes "slice_from a start step = Inr r"
  shows "set r \<subseteq> set a"
proof (cases "0 < step")
  case True
  let ?n = "int (length a)"
  let ?lo = "(case start of None \<Rightarrow> 0
              | Some i \<Rightarrow> if i < 0 then max (i + ?n) 0 else min i ?n)"
  let ?cnt = "(if ?lo < ?n then (?n - ?lo - 1) div step + 1 else 0)"
  have r: "r = map (\<lambda>k. a ! nat (?lo + int k * step)) [0..<nat ?cnt]"
    using assms True
    by (simp add: slice_from_def Let_def split del: if_split)
  have lo0: "0 \<le> ?lo" by (simp split: option.splits)
  have "a ! nat (?lo + int k * step) \<in> set a" if "k < nat ?cnt" for k
  proof -
    have lt: "?lo < ?n" using that by (simp split: if_splits)
    then have "int k < (?n - ?lo - 1) div step + 1"
      using that by simp
    then have "?lo + int k * step < ?n"
      using True lo0 lt stride_in_range by blast
    moreover have "0 \<le> ?lo + int k * step" using lo0 True by simp
    ultimately show ?thesis by (simp add: nat_less_iff)
  qed
  then show ?thesis unfolding r by auto
next
  case False
  let ?n = "int (length a)"
  let ?hi = "(case start of None \<Rightarrow> ?n - 1
              | Some i \<Rightarrow> if i < 0 then max (i + ?n) (- 1) else min i (?n - 1))"
  let ?cnt = "(if - 1 < ?hi then ?hi div (- step) + 1 else 0)"
  from assms have neg: "step < 0" using False
    by (cases "step = 0") (simp_all add: slice_from_def)
  have r: "r = map (\<lambda>k. a ! nat (?hi + int k * step)) [0..<nat ?cnt]"
    using assms neg
    by (simp add: slice_from_def Let_def split del: if_split)
  have hin: "?hi < ?n" by (auto split: option.splits)
  have "a ! nat (?hi + int k * step) \<in> set a" if "k < nat ?cnt" for k
  proof -
    have h0: "0 \<le> ?hi" using that by (simp split: if_splits)
    then have "int k < ?hi div (- step) + 1"
      using that by simp
    then have "0 \<le> ?hi + int k * step"
      using neg h0 stride_down_in_range by blast
    moreover have "?hi + int k * step \<le> ?hi" using neg by (simp add: mult_nonneg_nonpos)
    ultimately show ?thesis using hin by (simp add: nat_less_iff)
  qed
  then show ?thesis unfolding r by auto
qed

lemma slice_arange_from:
  assumes "0 < step" "0 \<le> j"
  shows "slice_from (np_arange n) (Some j) step
           = Inr (map (\<lambda>k. j + int k * step) [0..<count_from n j step])"
proof (cases "j < n")
  case True
  have "np_arange n ! nat (j + int k * step) = j + int k * step"
    if "k < nat ((n - j - 1) div step + 1)" for k
  proof -
    have "int k < (n - j - 1) div step + 1" using that by simp
    then have "j + int k * step < n" using assms True stride_in_range by blast
    moreover have "0 \<le> j + int k * step" using assms by simp
    ultimately show ?thesis by (simp add: np_arange_nth nat_less_iff)
  qed
  then show ?thesis
    using assms True
    by (simp add: slice_from_def Let_def length_np_arange count_from_def)
next
  case False
  then show ?thesis using assms
    by (simp add: slice_from_def Let_def length_np_arange count_from_def)
qed

lemma slice_arange_all:
  assumes "0 < step" "0 < n"
  shows "slice_from (np_arange n) None step
           = Inr (map (\<lambda>k. int k * step) [0..<count_from n 0 step])"
proof -
  have "np_arange n ! nat (int k * step) = int k * step"
    if "k < nat ((n - 1) div step + 1)" for k
  proof -
    have "int k < (n - 0 - 1) div step + 1" using that by simp
    then have "0 + int k * step < n" using assms stride_in_range[of step 0 n k] by blast
    moreover have "0 \<le> int k * step" using assms by simp
    ultimately show ?thesis by (simp add: np_arange_nth nat_less_iff)
  qed
  then show ?thesis
    using assms
    by (simp add: slice_from_def Let_def length_np_arange count_from_def)
qed

section \<open>One row or column\<close>

lemma count_from_shift:
  assumes "0 \<le> L" "L \<le> s" "0 < s"
  shows "count_from n (j + L) s \<le> count_from n j s"
    and "count_from n j s \<le> Suc (count_from n (j + L) s)"
proof -
  show "count_from n (j + L) s \<le> count_from n j s"
  proof (cases "j + L < n")
    case True
    then have "(n - (j + L) - 1) div s \<le> (n - j - 1) div s"
      using assms by (intro zdiv_mono1) auto
    then show ?thesis using True assms by (simp add: count_from_def)
  next
    case False
    then show ?thesis by (simp add: count_from_def)
  qed
  show "count_from n j s \<le> Suc (count_from n (j + L) s)"
  proof (cases "j + L < n")
    case True
    have "(n - j - 1) div s \<le> ((n - (j + L) - 1) + s) div s"
      using assms by (intro zdiv_mono1) auto
    also have "\<dots> = (n - (j + L) - 1) div s + 1"
      using assms div_add_self2[of s "n - (j + L) - 1"] by simp
    finally have le: "(n - j - 1) div s \<le> (n - (j + L) - 1) div s + 1" .
    have "0 \<le> (n - (j + L) - 1) div s"
      using True assms by (simp add: pos_imp_zdiv_nonneg_iff)
    then show ?thesis using True assms le by (simp add: count_from_def)
  next
    case False
    show ?thesis
    proof (cases "j < n")
      case True
      have "(n - j - 1) div s = 0"
        using True False assms by (intro div_pos_pos_trivial) auto
      then show ?thesis using True False by (simp add: count_from_def)
    next
      case F: False
      then show ?thesis by (simp add: count_from_def)
    qed
  qed
qed

lemma zip_map_upt:
  "zip (map f [0..<m]) (map h [0..<m]) = map (\<lambda>k. (f k, h k)) [0..<m]"
  by (simp add: zip_map_map zip_same_conv_map)

lemma generate_row_col_lines_valid:
  assumes rc: "rows_cols self = np_arange n"
    and L: "0 \<le> line_length self" and G: "0 \<le> line_gap self"
    and pos: "0 < line_length self + line_gap self"
    and draw: "src g (np_arange (line_length self + line_gap self)) = (j, g')"
    and j0: "0 \<le> j"
  shows "generate_row_col_lines src self iter g =
           Inr ((row_segments n (line_length self) (line_gap self) j,
                 replicate (length (row_segments n (line_length self) (line_gap self) j))
                   (iter, iter)), g')"
proof -
  let ?L = "line_length self" and ?G = "line_gap self"
  let ?s = "?G + ?L"
  let ?c1 = "count_from n j ?s" and ?c2 = "count_from n (j + ?L) ?s"
  have ne: "np_arange (?L + ?G) \<noteq> []"
    using pos by (simp add: np_arange_def)
  have choice: "random_choice src (np_arange (?L + ?G)) g = Inr (j, g')"
    using ne draw by (simp add: random_choice_def)
  have s1: "slice_from (rows_cols self) (Some j) ?s = Inr (map (\<lambda>k. j + int k * ?s) [0..<?c1])"
    using pos j0 by (simp add: rc slice_arange_from)
  have s2: "slice_from (rows_cols self) (Some (j + ?L)) ?s
              = Inr (map (\<lambda>k. j + ?L + int k * ?s) [0..<?c2])"
    using pos j0 L by (simp add: rc slice_arange_from)
  have le: "?c2 \<le> ?c1" and ge: "?c1 \<le> Suc ?c2"
    using count_from_shift[of ?L ?s n j] L G pos by auto
  have res: "generate_row_col_lines src self iter g =
          Inr ((map (\<lambda>k. (j + int k * ?s, j + ?L + int k * ?s)) [0..<?c2],
                map (\<lambda>_. (iter, iter)) (map (\<lambda>k. (j + int k * ?s, j + ?L + int k * ?s)) [0..<?c2])), g')"
  proof (cases "?c1 > ?c2")
    case True
    then have "?c1 = Suc ?c2" using ge by simp
    then show ?thesis
      by (simp add: generate_row_col_lines_def choice s1 s2 vstack_T_def zip_map_upt)
  next
    case False
    then have "?c1 = ?c2" using le by simp
    then show ?thesis
      by (simp add: generate_row_col_lines_def choice s1 s2 vstack_T_def zip_map_upt)
  qed
  from res show ?thesis
    by (simp add: row_segments_def add.commute map_replicate_const)
qed

section \<open>The loop over the selected rows or columns\<close>

lemma length_draws: "length (fst (draws src a k g)) = k"
  by (induction k arbitrary: g) auto

lemma draws_in_array:
  assumes "valid_source src" "a \<noteq> []"
  shows "set (fst (draws src a k g)) \<subseteq> set a"
proof (induction k arbitrary: g)
  case 0
  show ?case by simp
next
  case (Suc k)
  have "fst (src g a) \<in> set a" using assms by (simp add: valid_source_def)
  moreover have "set (fst (draws src a k (snd (src g a)))) \<subseteq> set a" by (rule Suc.IH)
  ultimately show ?case by auto
qed

lemma all_lines_loop_valid:
  assumes rc: "rows_cols self = np_arange n"
    and L: "0 \<le> line_length self" and G: "0 \<le> line_gap self"
    and pos: "0 < line_length self + line_gap self"
    and src: "valid_source src"
    and nz: "0 \<notin> set rcs"
  shows "all_lines_loop src self rcs (Some (a1, a2)) g =
           Inr (Some
             (a1 @ concat (map (row_segments n (line_length self) (line_gap self))
                     (fst (draws src (np_arange (line_length self + line_gap self)) (length rcs) g))),
              a2 @ concat (map2 (row_marks n (line_length self) (line_gap self)) rcs
                     (fst (draws src (np_arange (line_length self + line_gap self)) (length rcs) g)))),
             snd (draws src (np_arange (line_length self + line_gap self)) (length rcs) g))"
  using nz
proof (induction rcs arbitrary: a1 a2 g)
  case Nil
  show ?case by simp
next
  case (Cons r rcs)
  let ?a = "np_arange (line_length self + line_gap self)"
  obtain j g1 where d: "src g ?a = (j, g1)" by (cases "src g ?a")
  have "?a \<noteq> []" using pos by (simp add: np_arange_def)
  then have "j \<in> set ?a" using src d unfolding valid_source_def by (metis fst_conv)
  then have j0: "0 \<le> j" by (simp add: set_np_arange)
  have row: "generate_row_col_lines src self r g =
           Inr ((row_segments n (line_length self) (line_gap self) j,
                 row_marks n (line_length self) (line_gap self) r j), g1)"
    unfolding row_marks_def by (rule generate_row_col_lines_valid[where src=src and g=g, OF rc L G pos d j0])
  have r0: "r \<noteq> 0" and nz': "0 \<notin> set rcs" using Cons.prems by auto
  show ?case
    using r0 by (simp add: row d Cons.IH[OF nz'])
qed

lemma generate_all_lines_loop_from_zero:
  assumes rc: "rows_cols self = np_arange n"
    and L: "0 \<le> line_length self" and G: "0 \<le> line_gap self"
    and pos: "0 < line_length self + line_gap self"
    and src: "valid_source src"
    and nz: "0 \<notin> set rcs"
  shows "all_lines_loop src self (0 # rcs) acc g =
           Inr (Some
             (concat (map (row_segments n (line_length self) (line_gap self))
                     (fst (draws src (np_arange (line_length self + line_gap self)) (Suc (length rcs)) g))),
              concat (map2 (row_marks n (line_length self) (line_gap self)) (0 # rcs)
                     (fst (draws src (np_arange (line_length self + line_gap self)) (Suc (length rcs)) g)))),
             snd (draws src (np_arange (line_length self + line_gap self)) (Suc (length rcs)) g))"
proof -
  let ?a = "np_arange (line_length self + line_gap self)"
  obtain j g1 where d: "src g ?a = (j, g1)" by (cases "src g ?a")
  have "?a \<noteq> []" using pos by (simp add: np_arange_def)
  then have "j \<in> set ?a" using src d unfolding valid_source_def by (metis fst_conv)
  then have j0: "0 \<le> j" by (simp add: set_np_arange)
  have row: "generate_row_col_lines src self 0 g =
           Inr ((row_segments n (line_length self) (line_gap self) j,
                 row_marks n (line_length self) (line_gap self) 0 j), g1)"
    unfolding row_marks_def by (rule generate_row_col_lines_valid[where src=src and g=g, OF rc L G pos d j0])
  show ?thesis
    by (simp add: row d all_lines_loop_valid[OF rc L G pos src nz])
qed

lemma selected_indices_Cons:
  assumes "0 < d" "0 < n"
  shows "selected_indices n d = 0 # map (\<lambda>k. int k * d) [1..<count_from n 0 d]"
    and "0 \<notin> set (map (\<lambda>k. int k * d) [1..<count_from n 0 d])"
proof -
  have "0 \<le> (n - 1) div d" using assms by (simp add: pos_imp_zdiv_nonneg_iff)
  then have "0 < count_from n 0 d" using assms by (simp add: count_from_def)
  then show "selected_indices n d = 0 # map (\<lambda>k. int k * d) [1..<count_from n 0 d]"
    unfolding selected_indices_def by (simp add: upt_conv_Cons)
  show "0 \<notin> set (map (\<lambda>k. int k * d) [1..<count_from n 0 d])"
    using assms by auto
qed

lemma generate_all_lines_valid:
  assumes rc: "rows_cols self = np_arange n" and n: "0 < n"
    and L: "0 \<le> line_length self" and G: "0 \<le> line_gap self"
    and pos: "0 < line_length self + line_gap self"
    and src: "valid_source src"
    and d: "d = (if horizontal then row_density self else column_density self)"
    and dpos: "0 < d"
  shows "generate_all_lines src self horizontal g =
           Inr ((concat (map (row_segments n (line_length self) (line_gap self))
                     (fst (draws src (np_arange (line_length self + line_gap self))
                        (length (selected_indices n d)) g))),
                 concat (map2 (row_marks n (line_length self) (line_gap self))
                     (selected_indices n d)
                     (fst (draws src (np_arange (line_length self + line_gap self))
                        (length (selected_indices n d)) g)))),
                snd (draws src (np_arange (line_length self + line_gap self))
                        (length (selected_indices n d)) g))"
proof -
  have sel: "slice_from (rows_cols self) None d = Inr (selected_indices n d)"
    using dpos n by (simp add: rc slice_arange_all selected_indices_def)
  obtain rest where c: "selected_indices n d = 0 # rest" and nz: "0 \<notin> set rest"
    using selected_indices_Cons[OF dpos n] by blast
  show ?thesis
    unfolding generate_all_lines_def Let_def d[symmetric] sel c
    by (simp add: generate_all_lines_loop_from_zero[OF rc L G pos src nz]
          del: draws.simps all_lines_loop.simps)
qed

section \<open>Density and the number of selected rows\<close>

lemma count_from_antimono:
  assumes "0 < d2" "d2 \<le> d1" "0 < n"
  shows "count_from n 0 d1 \<le> count_from n 0 d2"
proof -
  have "(n - 1) div d1 \<le> (n - 1) div d2"
    using assms by (intro zdiv_mono2) auto
  then show ?thesis using assms by (simp add: count_from_def)
qed

section \<open>Sources used as concrete inputs\<close>

lemma valid_first_source: "valid_source first_source"
  by (auto simp: valid_source_def first_source_def split: list.splits)

lemma valid_counting_source: "valid_source counting_source"
  by (simp add: valid_source_def counting_source_def)

lemma initial_attributes_simps:
  "rows_cols (initial_attributes ll lg cd rd) = np_arange 3000"
  "line_length (initial_attributes ll lg cd rd) = ll"
  "line_gap (initial_attributes ll lg cd rd) = lg"
  "row_density (initial_attributes ll lg cd rd) = 100 - rd"
  "column_density (initial_attributes ll lg cd rd) = 100 - cd"
  by (simp_all add: initial_attributes_def)

section \<open>Segment lengths\<close>

lemma row_segments_extent: "(a, b) \<in> set (row_segments n L G j) \<Longrightarrow> b - a = L"
  by (auto simp: row_segments_def)

lemma row_segments_starts:
  assumes "0 \<le> L" "0 \<le> G" "0 < L + G"
  shows "map fst (row_segments n L G j)
           = take (count_from n (j + L) (L + G))
               (map (\<lambda>k. j + int k * (L + G)) [0..<count_from n j (L + G)])"
proof -
  have "count_from n (j + L) (L + G) \<le> count_from n j (L + G)"
    using count_from_shift(1)[of L "L + G" n j] assms by simp
  then show ?thesis
    by (simp add: row_segments_def take_map comp_def min_def)
qed

lemma row_segments_ends:
  "map snd (row_segments n L G j)
     = map (\<lambda>k. j + L + int k * (L + G)) [0..<count_from n (j + L) (L + G)]"
  by (simp add: row_segments_def comp_def)

lemma length_row_marks: "length (row_marks n L G r j) = length (row_segments n L G j)"
  by (simp add: row_marks_def)

lemma length_concat_marks:
  "length rs = length js \<Longrightarrow>
     length (concat (map2 (row_marks n L G) rs js)) = length (concat (map (row_segments n L G) js))"
  by (induction rs js rule: list_induct2) (simp_all add: length_row_marks)

lemma length_selected_indices: "length (selected_indices n d) = count_from n 0 d"
  by (simp add: selected_indices_def)

text \<open>
  Claim C1. For a valid source and valid parameters (length and gap not negative and not
  both zero, stored densities \<open>100 - d\<close> for \<open>d\<close> in \<open>[0, 90]\<close>), one row or column: the
  jitter is drawn, both slices are taken, the starts are at most one more than the ends,
  \<open>_generate_row_col_lines\<close> returns two collections of the same length, the emitted
  starts are the first \<open>length ends\<close> starts (an unmatched last start is dropped), the
  emitted ends are all the ends, and every segment's end minus its start is
  \<open>line_length\<close>. The same holds of everything \<open>_generate_all_lines\<close> returns.
\<close>

theorem emitted_segments_have_full_length:
  assumes src: "valid_source src"
    and rc: "rows_cols self = np_arange (1000 * 3)"
    and L: "0 \<le> line_length self" and G: "0 \<le> line_gap self"
    and nz: "\<not> (line_length self = 0 \<and> line_gap self = 0)"
    and rd: "10 \<le> row_density self" "row_density self \<le> 100"
    and cd: "10 \<le> column_density self" "column_density self \<le> 100"
  shows "(\<exists>start_jitter coordinates1 coordinates2 lines1 lines2 g'.
            random_choice src (np_arange (line_length self + line_gap self)) g
              = Inr (start_jitter, g') \<and>
            slice_from (rows_cols self) (Some start_jitter)
              (line_gap self + line_length self) = Inr coordinates1 \<and>
            slice_from (rows_cols self) (Some (start_jitter + line_length self))
              (line_gap self + line_length self) = Inr coordinates2 \<and>
            (length coordinates1 = length coordinates2 \<or>
             length coordinates1 = Suc (length coordinates2)) \<and>
            generate_row_col_lines src self iter g = Inr ((lines1, lines2), g') \<and>
            length lines1 = length lines2 \<and>
            map fst lines1 = take (length coordinates2) coordinates1 \<and>
            map snd lines1 = coordinates2 \<and>
            (\<forall>(a, b) \<in> set lines1. b - a = line_length self)) \<and>
         (\<exists>lines1 lines2 g'.
            generate_all_lines src self horizontal g = Inr ((lines1, lines2), g') \<and>
            length lines1 = length lines2 \<and>
            (\<forall>(a, b) \<in> set lines1. b - a = line_length self))"
proof
  let ?L = "line_length self" and ?G = "line_gap self"
  let ?a = "np_arange (?L + ?G)"
  have pos: "0 < ?L + ?G" using L G nz by linarith
  obtain j g1 where d: "src g ?a = (j, g1)" by (cases "src g ?a")
  have ne: "?a \<noteq> []" using pos by (simp add: np_arange_def)
  then have "j \<in> set ?a" using src d unfolding valid_source_def by (metis fst_conv)
  then have j0: "0 \<le> j" by (simp add: set_np_arange)
  let ?c1 = "count_from 3000 j (?L + ?G)" and ?c2 = "count_from 3000 (j + ?L) (?L + ?G)"
  let ?seg = "row_segments 3000 ?L ?G j"
  have choice: "random_choice src ?a g = Inr (j, g1)"
    using ne d by (simp add: random_choice_def)
  have s1: "slice_from (rows_cols self) (Some j) (?G + ?L)
              = Inr (map (\<lambda>k. j + int k * (?L + ?G)) [0..<?c1])"
    using pos j0 by (simp add: rc slice_arange_from add.commute)
  have s2: "slice_from (rows_cols self) (Some (j + ?L)) (?G + ?L)
              = Inr (map (\<lambda>k. j + ?L + int k * (?L + ?G)) [0..<?c2])"
    using pos j0 L by (simp add: rc slice_arange_from add.commute)
  have cnt: "?c1 = ?c2 \<or> ?c1 = Suc ?c2"
    using count_from_shift[of ?L "?L + ?G" 3000 j] L G pos by auto
  have row: "generate_row_col_lines src self iter g
               = Inr ((?seg, replicate (length ?seg) (iter, iter)), g1)"
    using rc by (intro generate_row_col_lines_valid[where src=src and g=g and n=3000] L G pos d j0) simp
  have starts: "map fst ?seg = take ?c2 (map (\<lambda>k. j + int k * (?L + ?G)) [0..<?c1])"
    using L G pos by (rule row_segments_starts)
  have ends: "map snd ?seg = map (\<lambda>k. j + ?L + int k * (?L + ?G)) [0..<?c2]"
    by (rule row_segments_ends)
  have ext: "\<forall>(a, b) \<in> set ?seg. b - a = ?L"
    using row_segments_extent by blast
  show "\<exists>start_jitter coordinates1 coordinates2 lines1 lines2 g'.
            random_choice src ?a g = Inr (start_jitter, g') \<and>
            slice_from (rows_cols self) (Some start_jitter) (?G + ?L) = Inr coordinates1 \<and>
            slice_from (rows_cols self) (Some (start_jitter + ?L)) (?G + ?L) = Inr coordinates2 \<and>
            (length coordinates1 = length coordinates2 \<or>
             length coordinates1 = Suc (length coordinates2)) \<and>
            generate_row_col_lines src self iter g = Inr ((lines1, lines2), g') \<and>
            length lines1 = length lines2 \<and>
            map fst lines1 = take (length coordinates2) coordinates1 \<and>
            map snd lines1 = coordinates2 \<and>
            (\<forall>(a, b) \<in> set lines1. b - a = ?L)"
    apply (intro exI conjI)
            apply (rule choice)
           apply (rule s1)
          apply (rule s2)
    using cnt apply simp
        apply (rule row)
       apply simp
    using starts apply simp
    using ends apply simp
    using ext apply simp
    done
next
  let ?L = "line_length self" and ?G = "line_gap self"
  let ?d = "if horizontal then row_density self else column_density self"
  have pos: "0 < ?L + ?G" using L G nz by linarith
  have dpos: "0 < ?d" using rd cd by simp
  let ?js = "fst (draws src (np_arange (?L + ?G)) (length (selected_indices 3000 ?d)) g)"
  have all: "generate_all_lines src self horizontal g =
               Inr ((concat (map (row_segments 3000 ?L ?G) ?js),
                     concat (map2 (row_marks 3000 ?L ?G) (selected_indices 3000 ?d) ?js)),
                    snd (draws src (np_arange (?L + ?G)) (length (selected_indices 3000 ?d)) g))"
    using rc by (intro generate_all_lines_valid[where n=3000] L G pos src dpos) simp_all
  have len: "length (concat (map (row_segments 3000 ?L ?G) ?js))
               = length (concat (map2 (row_marks 3000 ?L ?G) (selected_indices 3000 ?d) ?js))"
    by (rule length_concat_marks[symmetric]) (simp add: length_draws)
  have ext: "\<forall>(a, b) \<in> set (concat (map (row_segments 3000 ?L ?G) ?js)). b - a = ?L"
    using row_segments_extent by fastforce
  show "\<exists>lines1 lines2 g'.
            generate_all_lines src self horizontal g = Inr ((lines1, lines2), g') \<and>
            length lines1 = length lines2 \<and>
            (\<forall>(a, b) \<in> set lines1. b - a = ?L)"
    using all len ext by blast
qed

theorem emitted_segments_have_full_length_witness:
  "valid_source first_source \<and>
   rows_cols (initial_attributes 250 50 80 80) = np_arange (1000 * 3) \<and>
   line_length (initial_attributes 250 50 80 80) = 250 \<and>
   line_gap (initial_attributes 250 50 80 80) = 50 \<and>
   row_density (initial_attributes 250 50 80 80) = 20 \<and>
   column_density (initial_attributes 250 50 80 80) = 20 \<and>
   (\<exists>lines1 lines2 g'.
      generate_all_lines first_source (initial_attributes 250 50 80 80) True () =
        Inr ((lines1, lines2), g') \<and>
      length lines1 = length lines2 \<and>
      (\<forall>(a, b) \<in> set lines1. b - a = 250))"
  using emitted_segments_have_full_length
    [of first_source "initial_attributes 250 50 80 80" "()" 0 True]
  by (simp add: valid_first_source initial_attributes_simps)

section \<open>Orthogonal coordinates\<close>






section \<open>\<open>make_lines\<close> and the constructor\<close>

lemma store_arguments_frame:
  "rows_cols (store_arguments ll lg rd cd self) = rows_cols self"
  "horizontal_lines_xs (store_arguments ll lg rd cd self) = horizontal_lines_xs self"
  "horizontal_lines_ys (store_arguments ll lg rd cd self) = horizontal_lines_ys self"
  "vertical_lines_ys (store_arguments ll lg rd cd self) = vertical_lines_ys self"
  "vertical_lines_xs (store_arguments ll lg rd cd self) = vertical_lines_xs self"
  by (simp_all add: store_arguments_def Let_def split: option.splits)

lemma store_arguments_fields:
  "line_length (store_arguments ll lg rd cd self)
     = (case ll of None \<Rightarrow> line_length self
        | Some v \<Rightarrow> if v \<noteq> 0 then v else line_length self)"
  "line_gap (store_arguments ll lg rd cd self)
     = (case lg of None \<Rightarrow> line_gap self
        | Some v \<Rightarrow> if v \<noteq> 0 then v else line_gap self)"
  "row_density (store_arguments ll lg rd cd self)
     = (case rd of None \<Rightarrow> row_density self
        | Some v \<Rightarrow> if v \<noteq> 0 then 100 - v else row_density self)"
  "column_density (store_arguments ll lg rd cd self)
     = (case cd of None \<Rightarrow> column_density self
        | Some v \<Rightarrow> if v \<noteq> 0 then 100 - v else column_density self)"
  by (simp_all add: store_arguments_def Let_def split: option.splits)

lemma store_arguments_None [simp]: "store_arguments None None None None self = self"
  by (simp add: store_arguments_def)

lemma make_lines_object_after:
  "line_length (object_after (make_lines src ll lg rd cd self g))
     = line_length (store_arguments ll lg rd cd self)"
  "line_gap (object_after (make_lines src ll lg rd cd self g))
     = line_gap (store_arguments ll lg rd cd self)"
  "row_density (object_after (make_lines src ll lg rd cd self g))
     = row_density (store_arguments ll lg rd cd self)"
  "column_density (object_after (make_lines src ll lg rd cd self g))
     = column_density (store_arguments ll lg rd cd self)"
  "rows_cols (object_after (make_lines src ll lg rd cd self g)) = rows_cols self"
  by (simp_all add: make_lines_def object_after_def Let_def store_arguments_frame
        split: sum.splits prod.splits)

lemma make_lines_valid:
  assumes src: "valid_source src"
    and rc: "rows_cols self = np_arange n" and n: "0 < n"
    and s1: "self1 = store_arguments ll lg rd cd self"
    and L: "0 \<le> line_length self1" and G: "0 \<le> line_gap self1"
    and pos: "0 < line_length self1 + line_gap self1"
    and rpos: "0 < row_density self1" and cpos: "0 < column_density self1"
    and a: "a = np_arange (line_length self1 + line_gap self1)"
    and rows: "rows = selected_indices n (row_density self1)"
    and cols: "cols = selected_indices n (column_density self1)"
    and g1: "g1 = snd (draws src a (length rows) g)"
  shows "make_lines src ll lg rd cd self g =
           Inr (self1
                \<lparr> horizontal_lines_xs :=
                    concat (map (row_segments n (line_length self1) (line_gap self1))
                      (fst (draws src a (length rows) g))),
                  horizontal_lines_ys :=
                    concat (map2 (row_marks n (line_length self1) (line_gap self1)) rows
                      (fst (draws src a (length rows) g))),
                  vertical_lines_ys :=
                    concat (map (row_segments n (line_length self1) (line_gap self1))
                      (fst (draws src a (length cols) g1))),
                  vertical_lines_xs :=
                    concat (map2 (row_marks n (line_length self1) (line_gap self1)) cols
                      (fst (draws src a (length cols) g1))) \<rparr>,
                snd (draws src a (length cols) g1))"
proof -
  have rc1: "rows_cols self1 = np_arange n" by (simp add: s1 rc store_arguments_frame)
  have h: "generate_all_lines src self1 True g =
             Inr ((concat (map (row_segments n (line_length self1) (line_gap self1))
                      (fst (draws src a (length rows) g))),
                   concat (map2 (row_marks n (line_length self1) (line_gap self1)) rows
                      (fst (draws src a (length rows) g)))), g1)"
    unfolding a rows g1
    by (rule generate_all_lines_valid[OF rc1 n L G pos src _ rpos]) simp
  have v: "generate_all_lines src (self1\<lparr>horizontal_lines_xs := hx, horizontal_lines_ys := hy\<rparr>)
             False g1 =
             Inr ((concat (map (row_segments n (line_length self1) (line_gap self1))
                      (fst (draws src a (length cols) g1))),
                   concat (map2 (row_marks n (line_length self1) (line_gap self1)) cols
                      (fst (draws src a (length cols) g1)))),
                  snd (draws src a (length cols) g1))" for hx hy
    unfolding a cols
    using generate_all_lines_valid
      [where self = "self1\<lparr>horizontal_lines_xs := hx, horizontal_lines_ys := hy\<rparr>"
         and n = n and src = src and horizontal = False and d = "column_density self1" and g = g1]
      rc1 n L G pos src cpos
    by simp
  show ?thesis
    unfolding make_lines_def Let_def s1[symmetric] h
    by (simp add: v)
qed

lemma LineFactory_init_valid:
  assumes src: "valid_source src"
    and L: "0 \<le> ll" and G: "0 \<le> lg" and pos: "0 < ll + lg"
    and rpos: "rd < 100" and cpos: "cd < 100"
    and a: "a = np_arange (ll + lg)"
    and rows: "rows = selected_indices 3000 (100 - rd)"
    and cols: "cols = selected_indices 3000 (100 - cd)"
    and g1: "g1 = snd (draws src a (length rows) g)"
  shows "LineFactory_init src ll lg cd rd g =
           Inr (initial_attributes ll lg cd rd
                \<lparr> horizontal_lines_xs :=
                    concat (map (row_segments 3000 ll lg) (fst (draws src a (length rows) g))),
                  horizontal_lines_ys :=
                    concat (map2 (row_marks 3000 ll lg) rows (fst (draws src a (length rows) g))),
                  vertical_lines_ys :=
                    concat (map (row_segments 3000 ll lg) (fst (draws src a (length cols) g1))),
                  vertical_lines_xs :=
                    concat (map2 (row_marks 3000 ll lg) cols
                      (fst (draws src a (length cols) g1))) \<rparr>,
                snd (draws src a (length cols) g1))"
proof -
  let ?s = "initial_attributes ll lg cd rd"
  have "make_lines src None None None None ?s g = Inr (?s
                \<lparr> horizontal_lines_xs :=
                    concat (map (row_segments 3000 (line_length ?s) (line_gap ?s))
                      (fst (draws src a (length rows) g))),
                  horizontal_lines_ys :=
                    concat (map2 (row_marks 3000 (line_length ?s) (line_gap ?s)) rows
                      (fst (draws src a (length rows) g))),
                  vertical_lines_ys :=
                    concat (map (row_segments 3000 (line_length ?s) (line_gap ?s))
                      (fst (draws src a (length cols) g1))),
                  vertical_lines_xs :=
                    concat (map2 (row_marks 3000 (line_length ?s) (line_gap ?s)) cols
                      (fst (draws src a (length cols) g1))) \<rparr>,
                snd (draws src a (length cols) g1))"
    using L G pos rpos cpos a rows cols
    by (intro make_lines_valid[where n = 3000] src g1)
       (simp_all add: initial_attributes_simps)
  then show ?thesis
    by (simp add: LineFactory_init_def initial_attributes_simps)
qed

section \<open>Arguments of \<open>make_lines\<close>\<close>

lemma store_arguments_zero:
  "store_arguments (Some 0) lg rd cd self = store_arguments None lg rd cd self"
  "store_arguments ll (Some 0) rd cd self = store_arguments ll None rd cd self"
  "store_arguments ll lg (Some 0) cd self = store_arguments ll lg None cd self"
  "store_arguments ll lg rd (Some 0) self = store_arguments ll lg rd None self"
  by (simp_all add: store_arguments_def)

lemma make_lines_zero:
  "make_lines src (Some 0) lg rd cd self g = make_lines src None lg rd cd self g"
  "make_lines src ll (Some 0) rd cd self g = make_lines src ll None rd cd self g"
  "make_lines src ll lg (Some 0) cd self g = make_lines src ll lg None cd self g"
  "make_lines src ll lg rd (Some 0) self g = make_lines src ll lg rd None self g"
  by (simp_all add: make_lines_def store_arguments_zero)

text \<open>
  Claim C6. For every object, source and source state, a call of \<open>make_lines\<close> with an
  argument \<open>0\<close> is the same call as with that argument omitted, and after either call
  (whether it returned or raised) the stored parameter has its previous value; a non-zero
  argument \<open>v\<close> is stored: as \<open>v\<close> for the length and the gap, as \<open>100 - v\<close> for the two
  densities.
\<close>

theorem zero_argument_is_an_omitted_argument:
  "make_lines src (Some 0) lg rd cd self g = make_lines src None lg rd cd self g \<and>
   make_lines src ll (Some 0) rd cd self g = make_lines src ll None rd cd self g \<and>
   make_lines src ll lg (Some 0) cd self g = make_lines src ll lg None cd self g \<and>
   make_lines src ll lg rd (Some 0) self g = make_lines src ll lg rd None self g \<and>
   line_length (object_after (make_lines src None lg rd cd self g)) = line_length self \<and>
   line_gap (object_after (make_lines src ll None rd cd self g)) = line_gap self \<and>
   row_density (object_after (make_lines src ll lg None cd self g)) = row_density self \<and>
   column_density (object_after (make_lines src ll lg rd None self g)) = column_density self \<and>
   line_length (object_after (make_lines src (Some 0) lg rd cd self g)) = line_length self \<and>
   line_gap (object_after (make_lines src ll (Some 0) rd cd self g)) = line_gap self \<and>
   row_density (object_after (make_lines src ll lg (Some 0) cd self g)) = row_density self \<and>
   column_density (object_after (make_lines src ll lg rd (Some 0) self g))
     = column_density self \<and>
   (v \<noteq> 0 \<longrightarrow>
      line_length (object_after (make_lines src (Some v) lg rd cd self g)) = v \<and>
      line_gap (object_after (make_lines src ll (Some v) rd cd self g)) = v \<and>
      row_density (object_after (make_lines src ll lg (Some v) cd self g)) = 100 - v \<and>
      column_density (object_after (make_lines src ll lg rd (Some v) self g)) = 100 - v)"
  by (simp add: make_lines_zero make_lines_object_after store_arguments_fields)

theorem zero_argument_is_an_omitted_argument_witness:
  "(30::int) \<noteq> 0 \<and>
   line_gap (initial_attributes 250 50 80 80) = 50 \<and>
   line_gap (object_after
      (make_lines first_source None (Some 0) None None (initial_attributes 250 50 80 80) ()))
     = 50 \<and>
   line_gap (object_after
      (make_lines first_source None (Some 30) None None (initial_attributes 250 50 80 80) ()))
     = 30 \<and>
   row_density (object_after
      (make_lines first_source None None (Some 30) None (initial_attributes 250 50 80 80) ()))
     = 70"
proof -
  note t = zero_argument_is_an_omitted_argument
    [of first_source None None None "initial_attributes 250 50 80 80" "()" None 30]
  have a: "line_gap (object_after
      (make_lines first_source None (Some 0) None None (initial_attributes 250 50 80 80) ()))
     = line_gap (initial_attributes 250 50 80 80)"
    using t by blast
  have "(30::int) \<noteq> 0" by simp
  with t have b: "line_gap (object_after
      (make_lines first_source None (Some 30) None None (initial_attributes 250 50 80 80) ()))
     = 30" and c: "row_density (object_after
      (make_lines first_source None None (Some 30) None (initial_attributes 250 50 80 80) ()))
     = 100 - 30"
    by blast+
  show ?thesis using a b c by (simp add: initial_attributes_simps)
qed

section \<open>Coordinates stay in the grid\<close>

lemma generate_row_col_lines_within:
  assumes "generate_row_col_lines src self iter g = Inr ((l1, l2), g')"
  shows "\<forall>(a, b) \<in> set l1. a \<in> set (rows_cols self) \<and> b \<in> set (rows_cols self)"
    and "l2 = replicate (length l1) (iter, iter)"
proof -
  obtain j where c: "random_choice src (np_arange (line_length self + line_gap self)) g = Inr (j, g')"
    using assms by (auto simp: generate_row_col_lines_def split: sum.splits)
  obtain c1 where s1: "slice_from (rows_cols self) (Some j) (line_gap self + line_length self) = Inr c1"
    using assms c by (auto simp: generate_row_col_lines_def split: sum.splits)
  obtain c2 where s2: "slice_from (rows_cols self) (Some (j + line_length self))
                         (line_gap self + line_length self) = Inr c2"
    using assms c s1 by (auto simp: generate_row_col_lines_def split: sum.splits)
  let ?c1 = "if length c1 > length c2 then butlast c1 else c1"
  have l1: "l1 = zip ?c1 c2" and l2: "l2 = map (\<lambda>_. (iter, iter)) l1"
    using assms c s1 s2
    by (auto simp: generate_row_col_lines_def vstack_T_def split: sum.splits if_splits)
  have "set ?c1 \<subseteq> set c1" by (auto dest: in_set_butlastD)
  then have a: "set ?c1 \<subseteq> set (rows_cols self)"
    using slice_from_subset[OF s1] by blast
  have b: "set c2 \<subseteq> set (rows_cols self)" by (rule slice_from_subset[OF s2])
  show "\<forall>(a, b) \<in> set l1. a \<in> set (rows_cols self) \<and> b \<in> set (rows_cols self)"
  proof (clarify, rule conjI)
    fix x y assume xy: "(x, y) \<in> set l1"
    then have "x \<in> set ?c1" unfolding l1 by (rule set_zip_leftD)
    then show "x \<in> set (rows_cols self)" using a by blast
    from xy have "y \<in> set c2" unfolding l1 by (rule set_zip_rightD)
    then show "y \<in> set (rows_cols self)" using b by blast
  qed
  show "l2 = replicate (length l1) (iter, iter)"
    unfolding l2 by (simp add: map_replicate_const)
qed

lemma all_lines_loop_within:
  assumes "all_lines_loop src self rcs acc g = Inr (Some (l1, l2), g')"
    and "set rcs \<subseteq> set (rows_cols self)"
    and "\<And>a1 a2. acc = Some (a1, a2) \<Longrightarrow>
           \<forall>(a, b) \<in> set a1 \<union> set a2. a \<in> set (rows_cols self) \<and> b \<in> set (rows_cols self)"
  shows "\<forall>(a, b) \<in> set l1 \<union> set l2. a \<in> set (rows_cols self) \<and> b \<in> set (rows_cols self)"
  using assms
proof (induction rcs arbitrary: acc g)
  case Nil
  then show ?case by simp
next
  case (Cons r rcs)
  from Cons.prems(1) obtain a b g1 where
    row: "generate_row_col_lines src self r g = Inr ((a, b), g1)"
    by (auto split: sum.splits)
  have r: "r \<in> set (rows_cols self)" and sub: "set rcs \<subseteq> set (rows_cols self)"
    using Cons.prems(2) by auto
  have ia: "\<forall>(x, y) \<in> set a. x \<in> set (rows_cols self) \<and> y \<in> set (rows_cols self)"
    by (rule generate_row_col_lines_within(1)[OF row])
  have "b = replicate (length a) (r, r)"
    by (rule generate_row_col_lines_within(2)[OF row])
  then have ib: "\<forall>(x, y) \<in> set b. x \<in> set (rows_cols self) \<and> y \<in> set (rows_cols self)"
    using r by auto
  show ?case
  proof (cases "r = 0")
    case True
    then have "all_lines_loop src self rcs (Some (a, b)) g1 = Inr (Some (l1, l2), g')"
      using Cons.prems(1) row by simp
    then show ?thesis
      using ia ib by (intro Cons.IH[OF _ sub]) auto
  next
    case False
    then obtain a1 a2 where acc: "acc = Some (a1, a2)"
      using Cons.prems(1) row by (cases acc) auto
    then have "all_lines_loop src self rcs (Some (a1 @ a, a2 @ b)) g1 = Inr (Some (l1, l2), g')"
      using Cons.prems(1) row False by simp
    moreover have "\<forall>(x, y) \<in> set (a1 @ a) \<union> set (a2 @ b).
                      x \<in> set (rows_cols self) \<and> y \<in> set (rows_cols self)"
      using ia ib Cons.prems(3)[OF acc] by auto
    ultimately show ?thesis
      by (intro Cons.IH[OF _ sub]) auto
  qed
qed

lemma generate_all_lines_within:
  assumes "generate_all_lines src self horizontal g = Inr ((l1, l2), g')"
  shows "\<forall>(a, b) \<in> set l1 \<union> set l2. a \<in> set (rows_cols self) \<and> b \<in> set (rows_cols self)"
proof -
  let ?d = "if horizontal then row_density self else column_density self"
  obtain sel where sel: "slice_from (rows_cols self) None ?d = Inr sel"
    using assms by (auto simp: generate_all_lines_def Let_def split: sum.splits)
  have "all_lines_loop src self sel None g = Inr (Some (l1, l2), g')"
    using assms sel
    by (auto simp: generate_all_lines_def Let_def split: sum.splits option.splits)
  then show ?thesis
    using slice_from_subset[OF sel] by (rule all_lines_loop_within) simp
qed

lemma make_lines_within:
  assumes "make_lines src ll lg rd cd self g = Inr (self', g')"
  shows "all_coordinates self' \<subseteq> set (rows_cols self)" and "rows_cols self' = rows_cols self"
proof -
  let ?s1 = "store_arguments ll lg rd cd self"
  obtain hx hy g1 where h: "generate_all_lines src ?s1 True g = Inr ((hx, hy), g1)"
    using assms by (auto simp: make_lines_def Let_def split: sum.splits)
  let ?s2 = "?s1\<lparr>horizontal_lines_xs := hx, horizontal_lines_ys := hy\<rparr>"
  obtain vy vx where v: "generate_all_lines src ?s2 False g1 = Inr ((vy, vx), g')"
    and s': "self' = ?s2\<lparr>vertical_lines_ys := vy, vertical_lines_xs := vx\<rparr>"
    using assms h by (auto simp: make_lines_def Let_def split: sum.splits)
  have "\<forall>(a, b) \<in> set hx \<union> set hy. a \<in> set (rows_cols self) \<and> b \<in> set (rows_cols self)"
    using generate_all_lines_within[OF h] by (simp add: store_arguments_frame)
  moreover have "\<forall>(a, b) \<in> set vy \<union> set vx. a \<in> set (rows_cols self) \<and> b \<in> set (rows_cols self)"
    using generate_all_lines_within[OF v] by (simp add: store_arguments_frame)
  ultimately show "all_coordinates self' \<subseteq> set (rows_cols self)"
    unfolding all_coordinates_def s' by auto
  show "rows_cols self' = rows_cols self"
    unfolding s' by (simp add: store_arguments_frame)
qed

text \<open>
  Claim C10. Whenever \<open>make_lines\<close> returns on an object whose \<open>rows_cols\<close> is
  \<open>np.arange(3000)\<close>, and whenever the constructor returns, for every source (valid or not)
  and all arguments: \<open>rows_cols\<close> is still \<open>np.arange(3000)\<close>, and every coordinate in the
  four line attributes (segment starts and ends, and orthogonal indices) is an element of
  \<open>rows_cols\<close>, hence lies in \<open>[0, 3000)\<close>.
\<close>

theorem coordinates_lie_in_the_grid:
  "(rows_cols self = np_arange (1000 * 3) \<and>
      make_lines src ll lg rd cd self g = Inr (self', g') \<longrightarrow>
      all_coordinates self' \<subseteq> set (rows_cols self') \<and>
      rows_cols self' = np_arange (1000 * 3) \<and>
      all_coordinates self' \<subseteq> {0..<3000}) \<and>
   (LineFactory_init src length_arg gap_arg column_arg row_arg g = Inr (self'', g'') \<longrightarrow>
      all_coordinates self'' \<subseteq> set (rows_cols self'') \<and>
      rows_cols self'' = np_arange (1000 * 3) \<and>
      all_coordinates self'' \<subseteq> {0..<3000})"
proof (intro conjI impI)
  assume a: "rows_cols self = np_arange (1000 * 3) \<and>
      make_lines src ll lg rd cd self g = Inr (self', g')"
  then have m: "make_lines src ll lg rd cd self g = Inr (self', g')" by simp
  show "rows_cols self' = np_arange (1000 * 3)"
    using make_lines_within(2)[OF m] a by simp
  then show "all_coordinates self' \<subseteq> set (rows_cols self')"
    using make_lines_within(1)[OF m] a by simp
  then show "all_coordinates self' \<subseteq> {0..<3000}"
    using \<open>rows_cols self' = np_arange (1000 * 3)\<close> by (simp add: set_np_arange)
next
  assume "LineFactory_init src length_arg gap_arg column_arg row_arg g = Inr (self'', g'')"
  then have m: "make_lines src None None None None
                  (initial_attributes length_arg gap_arg column_arg row_arg) g
                = Inr (self'', g'')"
    by (auto simp: LineFactory_init_def split: sum.splits)
  show r: "rows_cols self'' = np_arange (1000 * 3)"
    using make_lines_within(2)[OF m] by (simp add: initial_attributes_simps)
  show c: "all_coordinates self'' \<subseteq> set (rows_cols self'')"
    using make_lines_within(1)[OF m] r by (simp add: initial_attributes_simps)
  show "all_coordinates self'' \<subseteq> {0..<3000}"
    using c r by (simp add: set_np_arange)
qed


theorem coordinates_lie_in_the_grid_witness:
  "\<exists>self' g' self'' g''.
     LineFactory_init first_source 250 50 80 80 () = Inr (self', g') \<and>
     rows_cols self' = np_arange (1000 * 3) \<and>
     all_coordinates self' \<subseteq> {0..<3000} \<and>
     make_lines first_source (Some 100) (Some 20) None None self' g' = Inr (self'', g'') \<and>
     all_coordinates self'' \<subseteq> {0..<3000}"
proof -
  obtain self' g' where i: "LineFactory_init first_source 250 50 80 80 () = Inr (self', g')"
    using LineFactory_init_valid[OF valid_first_source, of 250 50 80 80 _ _ _ _ "()"]
    by simp
  have p: "rows_cols self' = np_arange (1000 * 3)" "all_coordinates self' \<subseteq> {0..<3000}"
    using coordinates_lie_in_the_grid
      [where src = first_source and g = "()" and length_arg = 250 and gap_arg = 50
         and column_arg = 80 and row_arg = 80 and self'' = self' and g'' = g'] i
    by blast+
  have "make_lines first_source None None None None (initial_attributes 250 50 80 80) ()
          = Inr (self', g')"
    using i by (auto simp: LineFactory_init_def split: sum.splits)
  then have "object_after (make_lines first_source None None None None
               (initial_attributes 250 50 80 80) ()) = self'"
    by (simp add: object_after_def)
  then have f: "line_length self' = 250" "line_gap self' = 50" "row_density self' = 20"
      "column_density self' = 20"
    using make_lines_object_after
      [of first_source None None None None "initial_attributes 250 50 80 80" "()"]
    by (simp_all add: initial_attributes_simps)
  obtain self'' g'' where
    m: "make_lines first_source (Some 100) (Some 20) None None self' g' = Inr (self'', g'')"
    using make_lines_valid
      [OF valid_first_source, where self = self' and n = 3000 and ll = "Some 100"
         and lg = "Some 20" and rd = None and cd = None and g = g'] p(1) f
    by (simp add: store_arguments_fields)
  have "all_coordinates self'' \<subseteq> {0..<3000}"
    using coordinates_lie_in_the_grid
      [where src = first_source and self = self' and g = g' and ll = "Some 100"
         and lg = "Some 20" and rd = None and cd = None and self' = self'' and g' = g''] p(1) m
    by blast
  then show ?thesis using i p m by blast
qed

section \<open>The construction of the demonstration\<close>

lemma demo_row_count:
  assumes "0 \<le> j" "j < 300"
  shows "count_from 3000 (j + 250) 300 = (if j < 50 then 10 else 9)"
proof (cases "j < 50")
  case True
  then have "(3000 - (j + 250) - 1) div 300 = 9" using assms by arith
  then show ?thesis using True assms by (simp add: count_from_def)
next
  case False
  then have "(3000 - (j + 250) - 1) div 300 = 8" using assms by arith
  then show ?thesis using False assms by (simp add: count_from_def)
qed

lemma demo_row_segments:
  assumes "0 \<le> j" "j < 300"
  shows "row_segments 3000 250 50 j
           = map (\<lambda>i. (j + 300 * int i, j + 300 * int i + 250)) [0..<(if j < 50 then 10 else 9)]"
  using demo_row_count[OF assms]
  by (simp add: row_segments_def mult.commute add.commute add.left_commute)

lemma demo_selected: "selected_indices 3000 20 = map (\<lambda>k. 20 * int k) [0..<150]"
  by (simp add: selected_indices_def count_from_def mult.commute)

text \<open>
  Claim C9. \<open>LineFactory(line_length=250, line_gap=50, column_density=80, row_density=80)\<close>
  with any valid source returns an object whose two stored densities are 20; the rows it
  selects are exactly \<open>0, 20, ..., 2980\<close>, 150 of them; one jitter in \<open>[0, 300)\<close> is drawn
  per row, and the row with jitter \<open>j\<close> holds the segments \<open>(j + 300 i, j + 300 i + 250)\<close>
  for \<open>i < 10\<close> when \<open>j < 50\<close> and for \<open>i < 9\<close> otherwise (the tenth start has no end in
  the grid and is dropped), each with the row's index as both orthogonal coordinates.
\<close>

theorem demo_construction:
  assumes "valid_source src"
  shows "\<exists>self g' jitters.
     LineFactory_init src 250 50 80 80 g = Inr (self, g') \<and>
     row_density self = 20 \<and> column_density self = 20 \<and>
     slice_from (rows_cols self) None (row_density self)
       = Inr (map (\<lambda>k. 20 * int k) [0..<150]) \<and>
     length jitters = 150 \<and>
     (\<forall>j \<in> set jitters. 0 \<le> j \<and> j < 300) \<and>
     horizontal_lines_xs self
       = concat (map (\<lambda>j. map (\<lambda>i. (j + 300 * int i, j + 300 * int i + 250))
                              [0..<(if j < 50 then 10 else 9)]) jitters) \<and>
     horizontal_lines_ys self
       = concat (map2 (\<lambda>k j. replicate (if j < 50 then 10 else 9) (20 * int k, 20 * int k))
                   [0..<150] jitters)"
proof -
  let ?a = "np_arange (250 + 50)"
  let ?rows = "selected_indices 3000 (100 - 80)"
  let ?cols = "selected_indices 3000 (100 - 80)"
  let ?js = "fst (draws src ?a (length ?rows) g)"
  let ?g1 = "snd (draws src ?a (length ?rows) g)"
  let ?self = "initial_attributes 250 50 80 80
                \<lparr> horizontal_lines_xs := concat (map (row_segments 3000 250 50) ?js),
                  horizontal_lines_ys := concat (map2 (row_marks 3000 250 50) ?rows ?js),
                  vertical_lines_ys :=
                    concat (map (row_segments 3000 250 50) (fst (draws src ?a (length ?cols) ?g1))),
                  vertical_lines_xs :=
                    concat (map2 (row_marks 3000 250 50) ?cols
                      (fst (draws src ?a (length ?cols) ?g1))) \<rparr>"
  have init: "LineFactory_init src 250 50 80 80 g
                = Inr (?self, snd (draws src ?a (length ?cols) ?g1))"
    by (rule LineFactory_init_valid[OF assms]) simp_all
  have rows: "?rows = map (\<lambda>k. 20 * int k) [0..<150]"
    using demo_selected by simp
  have len: "length ?js = 150"
    by (simp add: length_draws demo_selected)
  have "set ?js \<subseteq> set ?a"
    by (rule draws_in_array[OF assms]) (simp add: np_arange_def)
  then have range: "\<forall>j \<in> set ?js. 0 \<le> j \<and> j < 300"
    by (auto simp: set_np_arange)
  have dens: "row_density ?self = 20" "column_density ?self = 20"
    by (simp_all add: initial_attributes_simps)
  have sel: "slice_from (rows_cols ?self) None (row_density ?self)
               = Inr (map (\<lambda>k. 20 * int k) [0..<150])"
    using demo_selected by (simp add: initial_attributes_simps slice_arange_all selected_indices_def)
  have segs: "map (row_segments 3000 250 50) ?js
                = map (\<lambda>j. map (\<lambda>i. (j + 300 * int i, j + 300 * int i + 250))
                              [0..<(if j < 50 then 10 else 9)]) ?js"
    using range by (intro map_cong refl demo_row_segments) auto
  have marks: "map2 (row_marks 3000 250 50) ?rows ?js
                 = map2 (\<lambda>k j. replicate (if j < 50 then 10 else 9) (20 * int k, 20 * int k))
                     [0..<150] ?js"
  proof -
    have "map2 (row_marks 3000 250 50) (map (\<lambda>k. 20 * int k) [0..<150]) ?js
            = map (\<lambda>(k, j). row_marks 3000 250 50 (20 * int k) j) (zip [0..<150] ?js)"
      by (simp add: zip_map1 case_prod_unfold comp_def)
    also have "\<dots> = map2 (\<lambda>k j. replicate (if j < 50 then 10 else 9) (20 * int k, 20 * int k))
                     [0..<150] ?js"
    proof (rule map_cong[OF refl])
      fix p assume "p \<in> set (zip [0..<150] ?js)"
      then have "snd p \<in> set ?js"
        using set_zip_rightD[of "fst p" "snd p" "[0..<150]" ?js] by simp
      then have "0 \<le> snd p" "snd p < 300" using range by auto
      then show "(case p of (k, j) \<Rightarrow> row_marks 3000 250 50 (20 * int k) j)
                   = (case p of (k, j) \<Rightarrow>
                        replicate (if j < 50 then 10 else 9) (20 * int k, 20 * int k))"
        by (cases p) (simp add: row_marks_def demo_row_segments)
    qed
    finally show ?thesis by (simp add: demo_selected)
  qed
  have hx: "horizontal_lines_xs ?self
       = concat (map (\<lambda>j. map (\<lambda>i. (j + 300 * int i, j + 300 * int i + 250))
                              [0..<(if j < 50 then 10 else 9)]) ?js)"
  proof -
    have "horizontal_lines_xs ?self = concat (map (row_segments 3000 250 50) ?js)" by simp
    then show ?thesis unfolding segs .
  qed
  have hy: "horizontal_lines_ys ?self
       = concat (map2 (\<lambda>k j. replicate (if j < 50 then 10 else 9) (20 * int k, 20 * int k))
                   [0..<150] ?js)"
  proof -
    have "horizontal_lines_ys ?self = concat (map2 (row_marks 3000 250 50) ?rows ?js)" by simp
    then show ?thesis unfolding marks .
  qed
  show ?thesis
    apply (rule exI[of _ ?self])
    apply (rule exI[of _ "snd (draws src ?a (length ?cols) ?g1)"])
    apply (rule exI[of _ ?js])
    apply (intro conjI)
           apply (rule init)
          apply (rule dens(1))
         apply (rule dens(2))
        apply (rule sel)
       apply (rule len)
      apply (rule range)
     apply (rule hx)
    apply (rule hy)
    done
qed

theorem demo_construction_witness:
  "valid_source first_source \<and>
   (\<exists>self g'. LineFactory_init first_source 250 50 80 80 () = Inr (self, g') \<and>
      row_density self = 20 \<and> column_density self = 20)"
  using demo_construction[OF valid_first_source, of "()"] valid_first_source by blast

section \<open>Calls that raise\<close>

lemma slice_all_nonempty:
  assumes "d \<noteq> 0" "a \<noteq> []"
  shows "\<exists>r rest. slice_from a None d = Inr (r # rest)"
proof (cases "0 < d")
  case True
  have "0 \<le> (int (length a) - 1) div d"
    using True assms(2) by (simp add: pos_imp_zdiv_nonneg_iff)
  then have "0 < nat ((int (length a) - 1) div d + 1)" by simp
  then have "[0..<nat ((int (length a) - 1) div d + 1)]
               = 0 # [Suc 0..<nat ((int (length a) - 1) div d + 1)]"
    by (rule upt_conv_Cons)
  then show ?thesis
    using True assms by (simp add: slice_from_def Let_def)
next
  case False
  then have neg: "d < 0" using assms(1) by simp
  have "0 \<le> (int (length a) - 1) div (- d)"
    using neg assms(2) by (simp add: pos_imp_zdiv_nonneg_iff)
  then have "0 < nat ((int (length a) - 1) div (- d) + 1)" by simp
  then have "[0..<nat ((int (length a) - 1) div (- d) + 1)]
               = 0 # [Suc 0..<nat ((int (length a) - 1) div (- d) + 1)]"
    by (rule upt_conv_Cons)
  then show ?thesis
    using neg assms by (simp add: slice_from_def Let_def)
qed

lemma slice_arange_backwards:
  assumes "d < 0" "0 < n"
  shows "\<exists>rest. slice_from (np_arange n) None d = Inr ((n - 1) # rest)"
proof -
  have "0 \<le> (n - 1) div (- d)"
    using assms by (simp add: pos_imp_zdiv_nonneg_iff)
  then have "0 < nat ((n - 1) div (- d) + 1)" by simp
  then have "[0..<nat ((n - 1) div (- d) + 1)] = 0 # [Suc 0..<nat ((n - 1) div (- d) + 1)]"
    by (rule upt_conv_Cons)
  moreover have "np_arange n ! nat (n - 1) = n - 1"
    using assms by (simp add: np_arange_nth)
  ultimately show ?thesis
    using assms by (simp add: slice_from_def Let_def length_np_arange)
qed

lemma generate_row_col_lines_degenerate:
  assumes "line_length self + line_gap self \<le> 0"
  shows "generate_row_col_lines src self iter g = Inl (ValueError empty_choice_message)"
  using assms by (simp add: generate_row_col_lines_def random_choice_def np_arange_def)

lemma generate_all_lines_degenerate:
  assumes "line_length self + line_gap self \<le> 0"
    and "(if horizontal then row_density self else column_density self) \<noteq> 0"
    and "rows_cols self \<noteq> []"
  shows "generate_all_lines src self horizontal g = Inl (ValueError empty_choice_message)"
proof -
  obtain r rest where
    "slice_from (rows_cols self) None (if horizontal then row_density self else column_density self)
       = Inr (r # rest)"
    using slice_all_nonempty[OF assms(2,3)] by blast
  then show ?thesis
    by (simp add: generate_all_lines_def Let_def generate_row_col_lines_degenerate[OF assms(1)])
qed

lemma generate_all_lines_zero_density:
  assumes "(if horizontal then row_density self else column_density self) = 0"
  shows "generate_all_lines src self horizontal g = Inl (ValueError zero_step_message)"
  using assms by (simp add: generate_all_lines_def slice_from_def)

lemma generate_all_lines_negative_density:
  assumes src: "valid_source src"
    and rc: "rows_cols self = np_arange n" and n: "1 < n"
    and L: "0 \<le> line_length self" and G: "0 \<le> line_gap self"
    and pos: "0 < line_length self + line_gap self"
    and d: "(if horizontal then row_density self else column_density self) < 0"
  shows "generate_all_lines src self horizontal g = Inl (UnboundLocalError ''lines1'')"
proof -
  let ?a = "np_arange (line_length self + line_gap self)"
  obtain rest where sel:
    "slice_from (rows_cols self) None (if horizontal then row_density self else column_density self)
       = Inr ((n - 1) # rest)"
    using slice_arange_backwards[OF d] n unfolding rc by fastforce
  obtain j g1 where dr: "src g ?a = (j, g1)" by (cases "src g ?a")
  have "?a \<noteq> []" using pos by (simp add: np_arange_def)
  then have "j \<in> set ?a" using src dr unfolding valid_source_def by (metis fst_conv)
  then have j0: "0 \<le> j" by (simp add: set_np_arange)
  have row: "generate_row_col_lines src self (n - 1) g =
           Inr ((row_segments n (line_length self) (line_gap self) j,
                 replicate (length (row_segments n (line_length self) (line_gap self) j))
                   (n - 1, n - 1)), g1)"
    by (rule generate_row_col_lines_valid[where src=src and g=g, OF rc L G pos dr j0])
  show ?thesis
    using n by (simp add: generate_all_lines_def Let_def sel row)
qed

lemma make_lines_degenerate:
  assumes "line_length (store_arguments ll lg rd cd self)
             + line_gap (store_arguments ll lg rd cd self) \<le> 0"
    and "row_density (store_arguments ll lg rd cd self) \<noteq> 0"
    and "rows_cols self \<noteq> []"
  shows "make_lines src ll lg rd cd self g
           = Inl (ValueError empty_choice_message, store_arguments ll lg rd cd self)"
proof -
  have "generate_all_lines src (store_arguments ll lg rd cd self) True g
          = Inl (ValueError empty_choice_message)"
    using assms by (intro generate_all_lines_degenerate) (simp_all add: store_arguments_frame)
  then show ?thesis by (simp add: make_lines_def)
qed

lemma make_lines_zero_row_density:
  assumes "row_density (store_arguments ll lg rd cd self) = 0"
  shows "make_lines src ll lg rd cd self g
           = Inl (ValueError zero_step_message, store_arguments ll lg rd cd self)"
proof -
  have "generate_all_lines src (store_arguments ll lg rd cd self) True g
          = Inl (ValueError zero_step_message)"
    using assms by (intro generate_all_lines_zero_density) simp
  then show ?thesis by (simp add: make_lines_def)
qed

lemma make_lines_negative_row_density:
  assumes src: "valid_source src"
    and rc: "rows_cols self = np_arange n" and n: "1 < n"
    and L: "0 \<le> line_length (store_arguments ll lg rd cd self)"
    and G: "0 \<le> line_gap (store_arguments ll lg rd cd self)"
    and pos: "0 < line_length (store_arguments ll lg rd cd self)
                + line_gap (store_arguments ll lg rd cd self)"
    and d: "row_density (store_arguments ll lg rd cd self) < 0"
  shows "make_lines src ll lg rd cd self g
           = Inl (UnboundLocalError ''lines1'', store_arguments ll lg rd cd self)"
proof -
  have "generate_all_lines src (store_arguments ll lg rd cd self) True g
          = Inl (UnboundLocalError ''lines1'')"
    using d by (intro generate_all_lines_negative_density[OF src _ n L G pos])
      (simp_all add: store_arguments_frame rc)
  then show ?thesis by (simp add: make_lines_def)
qed

lemma make_lines_bad_column_density:
  assumes src: "valid_source src"
    and rc: "rows_cols self = np_arange n" and n: "1 < n"
    and L: "0 \<le> line_length (store_arguments ll lg rd cd self)"
    and G: "0 \<le> line_gap (store_arguments ll lg rd cd self)"
    and pos: "0 < line_length (store_arguments ll lg rd cd self)
                + line_gap (store_arguments ll lg rd cd self)"
    and r: "0 < row_density (store_arguments ll lg rd cd self)"
    and c: "column_density (store_arguments ll lg rd cd self) \<le> 0"
  shows "\<exists>self'. make_lines src ll lg rd cd self g
           = Inl (if column_density (store_arguments ll lg rd cd self) = 0
                  then ValueError zero_step_message else UnboundLocalError ''lines1'', self')"
proof -
  let ?s1 = "store_arguments ll lg rd cd self"
  have rc1: "rows_cols ?s1 = np_arange n" by (simp add: store_arguments_frame rc)
  have n0: "0 < n" using n by simp
  obtain hx hy g1 where h: "generate_all_lines src ?s1 True g = Inr ((hx, hy), g1)"
    using generate_all_lines_valid[OF rc1 n0 L G pos src _ r, of True g] by simp
  let ?s2 = "?s1\<lparr>horizontal_lines_xs := hx, horizontal_lines_ys := hy\<rparr>"
  have v: "generate_all_lines src ?s2 False g1
             = Inl (if column_density ?s1 = 0
                    then ValueError zero_step_message else UnboundLocalError ''lines1'')"
  proof (cases "column_density ?s1 = 0")
    case True
    then show ?thesis by (simp add: generate_all_lines_zero_density)
  next
    case False
    then have "column_density ?s1 < 0" using c by simp
    then have "generate_all_lines src ?s2 False g1 = Inl (UnboundLocalError ''lines1'')"
      using rc1 L G pos
      by (intro generate_all_lines_negative_density[OF src _ n]) simp_all
    then show ?thesis using False by simp
  qed
  show ?thesis
    by (simp add: make_lines_def Let_def h v)
qed

section \<open>A zero stride\<close>

lemma LineFactory_init_degenerate:
  assumes "ll + lg \<le> 0" "rd \<noteq> 100"
  shows "LineFactory_init src ll lg cd rd g = Inl (ValueError empty_choice_message)"
proof -
  have "make_lines src None None None None (initial_attributes ll lg cd rd) g
          = Inl (ValueError empty_choice_message,
                 store_arguments None None None None (initial_attributes ll lg cd rd))"
    using assms
    by (intro make_lines_degenerate) (simp_all add: initial_attributes_simps np_arange_def)
  then show ?thesis by (simp add: LineFactory_init_def)
qed

lemma row_segments_zero_length: "(a, b) \<in> set (row_segments n 0 G j) \<Longrightarrow> b = a"
  by (auto simp: row_segments_def)

text \<open>
  Claim C3, as amended. When the length and the gap are both zero, the constructor (for a
  row density other than 100) and \<open>make_lines\<close> (for a stored row density other than 0)
  raise the \<open>ValueError\<close> of \<open>np.random.choice\<close> on the empty array \<open>np.arange(0)\<close>, at the
  first jitter draw; the source has no check of its own and no other message. A length of
  zero with a positive gap is accepted: with a valid source and densities below 100 the
  constructor returns, and every segment it emits has its end equal to its start.
\<close>

theorem both_zero_raises_the_empty_choice_error:
  "(row_arg \<noteq> 100 \<longrightarrow>
      LineFactory_init src 0 0 column_arg row_arg g = Inl (ValueError empty_choice_message)) \<and>
   (line_length (store_arguments ll lg rd cd self) = 0 \<and>
    line_gap (store_arguments ll lg rd cd self) = 0 \<and>
    row_density (store_arguments ll lg rd cd self) \<noteq> 0 \<and>
    rows_cols self = np_arange (1000 * 3) \<longrightarrow>
      make_lines src ll lg rd cd self g
        = Inl (ValueError empty_choice_message, store_arguments ll lg rd cd self)) \<and>
   (valid_source src \<and> 0 < gap \<and> row_arg < 100 \<and> column_arg < 100 \<longrightarrow>
      (\<exists>self' g'.
         LineFactory_init src 0 gap column_arg row_arg g = Inr (self', g') \<and>
         line_length self' = 0 \<and> line_gap self' = gap \<and>
         (\<forall>(a, b) \<in> set (horizontal_lines_xs self') \<union> set (vertical_lines_ys self'). b = a)))"
proof (intro conjI impI)
  assume "row_arg \<noteq> 100"
  then show "LineFactory_init src 0 0 column_arg row_arg g = Inl (ValueError empty_choice_message)"
    by (intro LineFactory_init_degenerate) simp_all
next
  assume a: "line_length (store_arguments ll lg rd cd self) = 0 \<and>
    line_gap (store_arguments ll lg rd cd self) = 0 \<and>
    row_density (store_arguments ll lg rd cd self) \<noteq> 0 \<and>
    rows_cols self = np_arange (1000 * 3)"
  then have "rows_cols self \<noteq> []" by (simp add: np_arange_def)
  then show "make_lines src ll lg rd cd self g
        = Inl (ValueError empty_choice_message, store_arguments ll lg rd cd self)"
    using a by (intro make_lines_degenerate) simp_all
next
  assume a: "valid_source src \<and> 0 < gap \<and> row_arg < 100 \<and> column_arg < 100"
  let ?a = "np_arange (0 + gap)"
  let ?rows = "selected_indices 3000 (100 - row_arg)"
  let ?cols = "selected_indices 3000 (100 - column_arg)"
  let ?g1 = "snd (draws src ?a (length ?rows) g)"
  let ?hx = "concat (map (row_segments 3000 0 gap) (fst (draws src ?a (length ?rows) g)))"
  let ?vy = "concat (map (row_segments 3000 0 gap) (fst (draws src ?a (length ?cols) ?g1)))"
  let ?self = "initial_attributes 0 gap column_arg row_arg
                \<lparr> horizontal_lines_xs := ?hx,
                  horizontal_lines_ys :=
                    concat (map2 (row_marks 3000 0 gap) ?rows (fst (draws src ?a (length ?rows) g))),
                  vertical_lines_ys := ?vy,
                  vertical_lines_xs :=
                    concat (map2 (row_marks 3000 0 gap) ?cols
                      (fst (draws src ?a (length ?cols) ?g1))) \<rparr>"
  have init: "LineFactory_init src 0 gap column_arg row_arg g
                = Inr (?self, snd (draws src ?a (length ?cols) ?g1))"
    using a by (intro LineFactory_init_valid) simp_all
  have z: "\<forall>(a, b) \<in> set ?hx \<union> set ?vy. b = a"
    using row_segments_zero_length by fastforce
  have "line_length ?self = 0 \<and> line_gap ?self = gap \<and>
         (\<forall>(a, b) \<in> set (horizontal_lines_xs ?self) \<union> set (vertical_lines_ys ?self). b = a)"
    using z by (simp add: initial_attributes_simps)
  with init show "\<exists>self' g'.
         LineFactory_init src 0 gap column_arg row_arg g = Inr (self', g') \<and>
         line_length self' = 0 \<and> line_gap self' = gap \<and>
         (\<forall>(a, b) \<in> set (horizontal_lines_xs self') \<union> set (vertical_lines_ys self'). b = a)"
    by blast
qed

theorem both_zero_raises_the_empty_choice_error_witness:
  "(80::int) \<noteq> 100 \<and>
   LineFactory_init first_source 0 0 80 80 () = Inl (ValueError empty_choice_message) \<and>
   valid_source first_source \<and>
   (\<exists>self' g'. LineFactory_init first_source 0 1 80 80 () = Inr (self', g') \<and>
      line_length self' = 0 \<and> line_gap self' = 1)"
proof -
  note t = both_zero_raises_the_empty_choice_error
    [where src = first_source and row_arg = 80 and column_arg = 80 and g = "()" and gap = 1]
  have a: "LineFactory_init first_source 0 0 80 80 () = Inl (ValueError empty_choice_message)"
    using t by simp
  have "valid_source first_source \<and> (0::int) < 1 \<and> (80::int) < 100 \<and> (80::int) < 100"
    by (simp add: valid_first_source)
  with t have "\<exists>self' g'. LineFactory_init first_source 0 1 80 80 () = Inr (self', g') \<and>
      line_length self' = 0 \<and> line_gap self' = 1"
    by blast
  with a show ?thesis by (simp add: valid_first_source)
qed

text \<open>
  Claim C3 as stated fails: the exception raised when both are zero carries numpy's
  message, not \<open>GapOrLength must be positive\<close>.
\<close>

theorem both_zero_message_counterexample:
  "LineFactory_init first_source 0 0 80 80 () = Inl (ValueError empty_choice_message) \<and>
   empty_choice_message \<noteq> ''GapOrLength must be positive''"
  by (simp add: LineFactory_init_degenerate empty_choice_message_def)

section \<open>A regeneration that raises\<close>

lemma LineFactory_init_demo:
  "\<exists>self g'. LineFactory_init first_source 250 50 80 80 () = Inr (self, g') \<and>
     rows_cols self = np_arange 3000 \<and> line_length self = 250 \<and> line_gap self = 50 \<and>
     row_density self = 20 \<and> column_density self = 20"
proof -
  obtain self g' where i: "LineFactory_init first_source 250 50 80 80 () = Inr (self, g')"
    using LineFactory_init_valid[OF valid_first_source, of 250 50 80 80 _ _ _ _ "()"]
    by simp
  then have "make_lines first_source None None None None (initial_attributes 250 50 80 80) ()
          = Inr (self, g')"
    by (auto simp: LineFactory_init_def split: sum.splits)
  then have "object_after (make_lines first_source None None None None
               (initial_attributes 250 50 80 80) ()) = self"
    by (simp add: object_after_def)
  then have "rows_cols self = np_arange 3000 \<and> line_length self = 250 \<and> line_gap self = 50 \<and>
     row_density self = 20 \<and> column_density self = 20"
    using make_lines_object_after
      [of first_source None None None None "initial_attributes 250 50 80 80" "()"]
    by (simp add: initial_attributes_simps)
  with i show ?thesis by blast
qed

text \<open>
  Claim C4, as amended. When the stored length and gap, after the arguments of the call
  are stored, sum to zero or less (and the stored row density is not zero), \<open>make_lines\<close>
  raises the \<open>ValueError\<close> of the first jitter draw. The object it leaves has its four line
  attributes unchanged, and its four parameters hold the arguments of the failing call:
  each non-zero argument has been stored (a density as \<open>100 - v\<close>) before generation
  started, and nothing is restored.
\<close>

theorem failed_regeneration_keeps_lines_but_not_parameters:
  assumes "line_length (store_arguments ll lg rd cd self)
             + line_gap (store_arguments ll lg rd cd self) \<le> 0"
    and "row_density (store_arguments ll lg rd cd self) \<noteq> 0"
    and "rows_cols self = np_arange (1000 * 3)"
  shows "\<exists>self'.
           make_lines src ll lg rd cd self g = Inl (ValueError empty_choice_message, self') \<and>
           horizontal_lines_xs self' = horizontal_lines_xs self \<and>
           horizontal_lines_ys self' = horizontal_lines_ys self \<and>
           vertical_lines_ys self' = vertical_lines_ys self \<and>
           vertical_lines_xs self' = vertical_lines_xs self \<and>
           line_length self'
             = (case ll of None \<Rightarrow> line_length self
                | Some v \<Rightarrow> if v \<noteq> 0 then v else line_length self) \<and>
           line_gap self'
             = (case lg of None \<Rightarrow> line_gap self
                | Some v \<Rightarrow> if v \<noteq> 0 then v else line_gap self) \<and>
           row_density self'
             = (case rd of None \<Rightarrow> row_density self
                | Some v \<Rightarrow> if v \<noteq> 0 then 100 - v else row_density self) \<and>
           column_density self'
             = (case cd of None \<Rightarrow> column_density self
                | Some v \<Rightarrow> if v \<noteq> 0 then 100 - v else column_density self)"
proof -
  have "rows_cols self \<noteq> []" using assms(3) by (simp add: np_arange_def)
  then have "make_lines src ll lg rd cd self g
               = Inl (ValueError empty_choice_message, store_arguments ll lg rd cd self)"
    using assms by (intro make_lines_degenerate) simp_all
  then show ?thesis
    using store_arguments_frame[of ll lg rd cd self] store_arguments_fields[of ll lg rd cd self]
    by blast
qed

theorem failed_regeneration_keeps_lines_but_not_parameters_witness:
  "\<exists>self g' self'.
     LineFactory_init first_source 250 50 80 80 () = Inr (self, g') \<and>
     rows_cols self = np_arange (1000 * 3) \<and>
     line_length (store_arguments (Some (- 50)) None None None self)
       + line_gap (store_arguments (Some (- 50)) None None None self) \<le> 0 \<and>
     row_density (store_arguments (Some (- 50)) None None None self) \<noteq> 0 \<and>
     make_lines first_source (Some (- 50)) None None None self g'
       = Inl (ValueError empty_choice_message, self') \<and>
     horizontal_lines_xs self' = horizontal_lines_xs self \<and>
     line_length self' = - 50"
proof -
  obtain self g' where i: "LineFactory_init first_source 250 50 80 80 () = Inr (self, g')"
    and f: "rows_cols self = np_arange 3000" "line_length self = 250" "line_gap self = 50"
      "row_density self = 20"
    using LineFactory_init_demo by blast
  have h: "line_length (store_arguments (Some (- 50)) None None None self)
       + line_gap (store_arguments (Some (- 50)) None None None self) \<le> 0"
    "row_density (store_arguments (Some (- 50)) None None None self) \<noteq> 0"
    "rows_cols self = np_arange (1000 * 3)"
    using f by (simp_all add: store_arguments_fields)
  obtain self' where
    "make_lines first_source (Some (- 50)) None None None self g'
       = Inl (ValueError empty_choice_message, self')"
    "horizontal_lines_xs self' = horizontal_lines_xs self"
    "line_length self' = - 50"
    using failed_regeneration_keeps_lines_but_not_parameters[OF h, of first_source g']
    by auto
  then show ?thesis using i h by blast
qed

text \<open>
  Claim C4 as stated fails: on the constructed demonstration object, \<open>make_lines\<close> with
  \<open>line_length = -50\<close> (the stored gap is 50) raises, and the stored length is then -50,
  not the 250 it was.
\<close>

theorem failed_regeneration_counterexample:
  "(case LineFactory_init first_source 250 50 80 80 () of
      Inl e \<Rightarrow> False
    | Inr (self, g) \<Rightarrow>
        (case make_lines first_source (Some (- 50)) None None None self g of
           Inl (e, self') \<Rightarrow>
             e = ValueError empty_choice_message \<and> line_length self = 250 \<and>
             line_length self' = - 50
         | Inr r \<Rightarrow> False))"
proof -
  obtain self g' where i: "LineFactory_init first_source 250 50 80 80 () = Inr (self, g')"
    and f: "rows_cols self = np_arange 3000" "line_length self = 250" "line_gap self = 50"
      "row_density self = 20"
    using LineFactory_init_demo by blast
  have "make_lines first_source (Some (- 50)) None None None self g'
          = Inl (ValueError empty_choice_message,
                 store_arguments (Some (- 50)) None None None self)"
    using f by (intro make_lines_degenerate) (simp_all add: store_arguments_fields np_arange_def)
  then show ?thesis
    using i f by (simp add: store_arguments_fields)
qed

section \<open>Densities outside \<open>[0, 90]\<close>\<close>

lemma make_lines_density_cases:
  assumes src: "valid_source src"
    and rc: "rows_cols self = np_arange 3000"
    and L: "0 \<le> line_length (store_arguments ll lg rd cd self)"
    and G: "0 \<le> line_gap (store_arguments ll lg rd cd self)"
    and pos: "0 < line_length (store_arguments ll lg rd cd self)
                + line_gap (store_arguments ll lg rd cd self)"
  shows "(0 < row_density (store_arguments ll lg rd cd self) \<and>
          0 < column_density (store_arguments ll lg rd cd self) \<longrightarrow>
            (\<exists>self' g'. make_lines src ll lg rd cd self g = Inr (self', g') \<and>
               row_density self' = row_density (store_arguments ll lg rd cd self) \<and>
               column_density self' = column_density (store_arguments ll lg rd cd self))) \<and>
         (row_density (store_arguments ll lg rd cd self) = 0 \<longrightarrow>
            (\<exists>self'. make_lines src ll lg rd cd self g
                        = Inl (ValueError zero_step_message, self'))) \<and>
         (row_density (store_arguments ll lg rd cd self) < 0 \<longrightarrow>
            (\<exists>self'. make_lines src ll lg rd cd self g
                        = Inl (UnboundLocalError ''lines1'', self'))) \<and>
         (0 < row_density (store_arguments ll lg rd cd self) \<and>
          column_density (store_arguments ll lg rd cd self) = 0 \<longrightarrow>
            (\<exists>self'. make_lines src ll lg rd cd self g
                        = Inl (ValueError zero_step_message, self'))) \<and>
         (0 < row_density (store_arguments ll lg rd cd self) \<and>
          column_density (store_arguments ll lg rd cd self) < 0 \<longrightarrow>
            (\<exists>self'. make_lines src ll lg rd cd self g
                        = Inl (UnboundLocalError ''lines1'', self')))"
proof (intro conjI impI)
  let ?s1 = "store_arguments ll lg rd cd self"
  assume a: "0 < row_density ?s1 \<and> 0 < column_density ?s1"
  obtain self' g' where m: "make_lines src ll lg rd cd self g = Inr (self', g')"
    using make_lines_valid[OF src rc _ refl L G pos _ _ refl refl refl refl, of g] a by simp
  then have "object_after (make_lines src ll lg rd cd self g) = self'"
    by (simp add: object_after_def)
  then have "row_density self' = row_density ?s1 \<and> column_density self' = column_density ?s1"
    using make_lines_object_after[of src ll lg rd cd self g] by simp
  with m show "\<exists>self' g'. make_lines src ll lg rd cd self g = Inr (self', g') \<and>
               row_density self' = row_density ?s1 \<and> column_density self' = column_density ?s1"
    by blast
next
  let ?s1 = "store_arguments ll lg rd cd self"
  assume "row_density ?s1 = 0"
  then show "\<exists>self'. make_lines src ll lg rd cd self g = Inl (ValueError zero_step_message, self')"
    using make_lines_zero_row_density[of ll lg rd cd self src g] by simp
next
  let ?s1 = "store_arguments ll lg rd cd self"
  assume "row_density ?s1 < 0"
  then show "\<exists>self'. make_lines src ll lg rd cd self g = Inl (UnboundLocalError ''lines1'', self')"
    using make_lines_negative_row_density[OF src rc _ L G pos, of g] by simp
next
  let ?s1 = "store_arguments ll lg rd cd self"
  assume a: "0 < row_density ?s1 \<and> column_density ?s1 = 0"
  then show "\<exists>self'. make_lines src ll lg rd cd self g = Inl (ValueError zero_step_message, self')"
    using make_lines_bad_column_density[OF src rc _ L G pos, of g] by simp
next
  let ?s1 = "store_arguments ll lg rd cd self"
  assume a: "0 < row_density ?s1 \<and> column_density ?s1 < 0"
  then show "\<exists>self'. make_lines src ll lg rd cd self g = Inl (UnboundLocalError ''lines1'', self')"
    using make_lines_bad_column_density[OF src rc _ L G pos, of g] by simp
qed

lemma LineFactory_init_cases:
  "LineFactory_init src ll lg cd rd g = Inr (self', g')
     \<longleftrightarrow> make_lines src None None None None (initial_attributes ll lg cd rd) g = Inr (self', g')"
  "LineFactory_init src ll lg cd rd g = Inl e
     \<longleftrightarrow> (\<exists>self'. make_lines src None None None None (initial_attributes ll lg cd rd) g
                     = Inl (e, self'))"
  by (auto simp: LineFactory_init_def split: sum.splits)

text \<open>
  Claim C5, as amended. No density is checked against a range or clamped. With a valid
  source and a valid length and gap, the constructor stores \<open>100 - d\<close> and returns for all
  row and column densities below 100, negative ones and 91 to 99 included; a row density
  of exactly 100 makes the slice step zero and raises \<open>ValueError\<close>; a row density above 100
  makes the loop start at index 2999 and raises \<open>UnboundLocalError\<close>; with a row density
  below 100 the same two failures occur for the column density. \<open>make_lines\<close> with a
  non-zero row density argument \<open>v\<close> behaves the same way, and the object it leaves holds
  the stored \<open>100 - v\<close> in all three cases.
\<close>

theorem densities_are_stored_unchecked:
  assumes src: "valid_source src"
  shows "(0 \<le> ll \<and> 0 \<le> lg \<and> 0 < ll + lg \<longrightarrow>
            (row_arg < 100 \<and> column_arg < 100 \<longrightarrow>
               (\<exists>self' g'. LineFactory_init src ll lg column_arg row_arg g = Inr (self', g') \<and>
                  row_density self' = 100 - row_arg \<and>
                  column_density self' = 100 - column_arg)) \<and>
            (row_arg = 100 \<longrightarrow>
               LineFactory_init src ll lg column_arg row_arg g
                 = Inl (ValueError zero_step_message)) \<and>
            (100 < row_arg \<longrightarrow>
               LineFactory_init src ll lg column_arg row_arg g
                 = Inl (UnboundLocalError ''lines1'')) \<and>
            (row_arg < 100 \<and> column_arg = 100 \<longrightarrow>
               LineFactory_init src ll lg column_arg row_arg g
                 = Inl (ValueError zero_step_message)) \<and>
            (row_arg < 100 \<and> 100 < column_arg \<longrightarrow>
               LineFactory_init src ll lg column_arg row_arg g
                 = Inl (UnboundLocalError ''lines1''))) \<and>
         (rows_cols self = np_arange (1000 * 3) \<and> 0 \<le> line_length self \<and>
          0 \<le> line_gap self \<and> 0 < line_length self + line_gap self \<and>
          0 < column_density self \<and> v \<noteq> 0 \<longrightarrow>
            (v < 100 \<longrightarrow>
               (\<exists>self' g'. make_lines src None None (Some v) None self g = Inr (self', g') \<and>
                  row_density self' = 100 - v)) \<and>
            (v = 100 \<longrightarrow>
               (\<exists>self'. make_lines src None None (Some v) None self g
                           = Inl (ValueError zero_step_message, self') \<and>
                         row_density self' = 0)) \<and>
            (100 < v \<longrightarrow>
               (\<exists>self'. make_lines src None None (Some v) None self g
                           = Inl (UnboundLocalError ''lines1'', self') \<and>
                         row_density self' = 100 - v)))"
proof (intro conjI impI)
  let ?s = "initial_attributes ll lg column_arg row_arg"
  assume v: "0 \<le> ll \<and> 0 \<le> lg \<and> 0 < ll + lg"
  note c = make_lines_density_cases
    [OF src, where self = ?s and ll = None and lg = None and rd = None and cd = None and g = g]
  {
    assume "row_arg < 100 \<and> column_arg < 100"
    then show "\<exists>self' g'. LineFactory_init src ll lg column_arg row_arg g = Inr (self', g') \<and>
                  row_density self' = 100 - row_arg \<and> column_density self' = 100 - column_arg"
      using c v by (simp add: initial_attributes_simps LineFactory_init_cases)
  next
    assume "row_arg = 100"
    then show "LineFactory_init src ll lg column_arg row_arg g = Inl (ValueError zero_step_message)"
      using c v by (simp add: initial_attributes_simps LineFactory_init_cases)
  next
    assume "100 < row_arg"
    then show "LineFactory_init src ll lg column_arg row_arg g = Inl (UnboundLocalError ''lines1'')"
      using c v by (simp add: initial_attributes_simps LineFactory_init_cases)
  next
    assume "row_arg < 100 \<and> column_arg = 100"
    then show "LineFactory_init src ll lg column_arg row_arg g = Inl (ValueError zero_step_message)"
      using c v by (simp add: initial_attributes_simps LineFactory_init_cases)
  next
    assume "row_arg < 100 \<and> 100 < column_arg"
    then show "LineFactory_init src ll lg column_arg row_arg g = Inl (UnboundLocalError ''lines1'')"
      using c v by (simp add: initial_attributes_simps LineFactory_init_cases)
  }
next
  assume a: "rows_cols self = np_arange (1000 * 3) \<and> 0 \<le> line_length self \<and>
          0 \<le> line_gap self \<and> 0 < line_length self + line_gap self \<and>
          0 < column_density self \<and> v \<noteq> 0"
  let ?s1 = "store_arguments None None (Some v) None self"
  have f: "line_length ?s1 = line_length self" "line_gap ?s1 = line_gap self"
    "row_density ?s1 = 100 - v" "column_density ?s1 = column_density self"
    using a by (simp_all add: store_arguments_fields)
  have rc: "rows_cols self = np_arange 3000" using a by simp
  {
    assume "v < 100"
    then have p: "0 < row_density ?s1 \<and> 0 < column_density ?s1" using f a by simp
    obtain self' g' where m: "make_lines src None None (Some v) None self g = Inr (self', g')"
      using make_lines_valid[OF src rc _ refl _ _ _ _ _ refl refl refl refl, of None None "Some v" None g]
        p a f by auto
    then have "object_after (make_lines src None None (Some v) None self g) = self'"
      by (simp add: object_after_def)
    then have "row_density self' = 100 - v"
      using make_lines_object_after(3)[of src None None "Some v" None self g] f by simp
    with m show "\<exists>self' g'. make_lines src None None (Some v) None self g = Inr (self', g') \<and>
                  row_density self' = 100 - v"
      by blast
  next
    assume "v = 100"
    then have "row_density ?s1 = 0" using f by simp
    then have "make_lines src None None (Some v) None self g
                 = Inl (ValueError zero_step_message, ?s1)"
      by (rule make_lines_zero_row_density)
    then show "\<exists>self'. make_lines src None None (Some v) None self g
                           = Inl (ValueError zero_step_message, self') \<and> row_density self' = 0"
      using \<open>row_density ?s1 = 0\<close> by blast
  next
    assume "100 < v"
    then have "row_density ?s1 < 0" using f by simp
    then have "make_lines src None None (Some v) None self g
                 = Inl (UnboundLocalError ''lines1'', ?s1)"
      using a f by (intro make_lines_negative_row_density[OF src rc]) simp_all
    then show "\<exists>self'. make_lines src None None (Some v) None self g
                           = Inl (UnboundLocalError ''lines1'', self') \<and>
                         row_density self' = 100 - v"
      using f by blast
  }
qed


theorem densities_are_stored_unchecked_witness:
  "valid_source first_source \<and>
   (\<exists>self' g'. LineFactory_init first_source 250 50 80 (- 50) () = Inr (self', g') \<and>
      row_density self' = 150 \<and> column_density self' = 20) \<and>
   rows_cols (initial_attributes 250 50 80 80) = np_arange (1000 * 3) \<and>
   (\<exists>self' g'. make_lines first_source None None (Some 95) None
                   (initial_attributes 250 50 80 80) () = Inr (self', g') \<and>
      row_density self' = 5)"
proof -
  note t = densities_are_stored_unchecked
    [OF valid_first_source, where ll = 250 and lg = 50 and row_arg = "- 50" and column_arg = 80
       and g = "()" and self = "initial_attributes 250 50 80 80" and v = 95]
  have a: "\<exists>self' g'. LineFactory_init first_source 250 50 80 (- 50) () = Inr (self', g') \<and>
      row_density self' = 100 - (- 50) \<and> column_density self' = 100 - 80"
    using t by simp
  have b: "\<exists>self' g'. make_lines first_source None None (Some 95) None
                   (initial_attributes 250 50 80 80) () = Inr (self', g') \<and>
      row_density self' = 100 - 95"
    using t by (simp add: initial_attributes_simps)
  show ?thesis
    using a b by (simp add: valid_first_source initial_attributes_simps)
qed

text \<open>
  Claim C5 as stated fails: the constructor returns for a row density of -50 and for one
  of 95, storing 150 and 5.
\<close>

theorem density_out_of_range_counterexample:
  "(case LineFactory_init first_source 250 50 80 (- 50) () of
      Inl e \<Rightarrow> False
    | Inr (self, g) \<Rightarrow> row_density self = 150) \<and>
   (case LineFactory_init first_source 250 50 80 95 () of
      Inl e \<Rightarrow> False
    | Inr (self, g) \<Rightarrow> row_density self = 5)"
proof -
  have "\<exists>self' g'.
          make_lines first_source None None None None (initial_attributes 250 50 80 rd) ()
            = Inr (self', g') \<and>
          row_density self' = 100 - rd" if "rd < 100" for rd
    using make_lines_density_cases
      [OF valid_first_source, where self = "initial_attributes 250 50 80 rd" and ll = None
         and lg = None and rd = None and cd = None and g = "()"] that
    by (auto simp: initial_attributes_simps)
  from this[of "- 50"] this[of 95] show ?thesis
    by (auto simp: LineFactory_init_def)
qed

section \<open>Regenerating twice\<close>

lemma generate_row_col_lines_cong:
  assumes "rows_cols s = rows_cols t" "line_length s = line_length t" "line_gap s = line_gap t"
  shows "generate_row_col_lines src s iter g = generate_row_col_lines src t iter g"
  unfolding generate_row_col_lines_def assms by (rule refl)

lemma all_lines_loop_cong:
  assumes "rows_cols s = rows_cols t" "line_length s = line_length t" "line_gap s = line_gap t"
  shows "all_lines_loop src s rcs acc g = all_lines_loop src t rcs acc g"
proof (induction rcs arbitrary: acc g)
  case Nil
  show ?case by simp
next
  case (Cons r rcs)
  show ?case
    by (simp add: generate_row_col_lines_cong[OF assms] Cons.IH
          split: sum.splits prod.splits option.splits)
qed

lemma generate_all_lines_cong:
  assumes "rows_cols s = rows_cols t" "line_length s = line_length t" "line_gap s = line_gap t"
    and "row_density s = row_density t" "column_density s = column_density t"
  shows "generate_all_lines src s horizontal g = generate_all_lines src t horizontal g"
  unfolding generate_all_lines_def assms(1,4,5) all_lines_loop_cong[OF assms(1-3)]
  by (rule refl)

lemma store_arguments_rest:
  "number_of_rows_cols (store_arguments ll lg rd cd self) = number_of_rows_cols self"
  "LineFactory.more (store_arguments ll lg rd cd self) = LineFactory.more self"
  by (simp_all add: store_arguments_def Let_def split: option.splits)

lemma store_arguments_idem:
  "store_arguments ll lg rd cd (store_arguments ll lg rd cd self) = store_arguments ll lg rd cd self"
  by (rule LineFactory.equality)
     (simp_all add: store_arguments_fields store_arguments_frame store_arguments_rest
        split: option.splits)

lemma store_arguments_lines:
  "store_arguments ll lg rd cd
     (self\<lparr>horizontal_lines_xs := hx, horizontal_lines_ys := hy,
            vertical_lines_ys := vy, vertical_lines_xs := vx\<rparr>)
   = (store_arguments ll lg rd cd self)
       \<lparr>horizontal_lines_xs := hx, horizontal_lines_ys := hy,
        vertical_lines_ys := vy, vertical_lines_xs := vx\<rparr>"
  by (rule LineFactory.equality)
     (simp_all add: store_arguments_fields store_arguments_frame store_arguments_rest
        split: option.splits)

lemma make_lines_same_source_state:
  assumes "make_lines src ll lg rd cd self g = Inr (self1, g1)"
  shows "make_lines src ll lg rd cd self1 g = Inr (self1, g1)"
proof -
  let ?s1 = "store_arguments ll lg rd cd self"
  obtain hx hy ga where h: "generate_all_lines src ?s1 True g = Inr ((hx, hy), ga)"
    using assms by (auto simp: make_lines_def Let_def split: sum.splits)
  let ?s2 = "?s1\<lparr>horizontal_lines_xs := hx, horizontal_lines_ys := hy\<rparr>"
  obtain vy vx where v: "generate_all_lines src ?s2 False ga = Inr ((vy, vx), g1)"
    and s: "self1 = ?s2\<lparr>vertical_lines_ys := vy, vertical_lines_xs := vx\<rparr>"
    using assms h by (auto simp: make_lines_def Let_def split: sum.splits)
  have st: "store_arguments ll lg rd cd self1 = self1"
    unfolding s
    using store_arguments_lines
      [where ll = ll and lg = lg and rd = rd and cd = cd and self = ?s1
         and hx = hx and hy = hy and vy = vy and vx = vx]
    by (simp add: store_arguments_idem)
  have h': "generate_all_lines src self1 True g = Inr ((hx, hy), ga)"
    using h unfolding s by (subst generate_all_lines_cong[where t = ?s1]) simp_all
  have v': "generate_all_lines src
              (self1\<lparr>horizontal_lines_xs := hx, horizontal_lines_ys := hy\<rparr>) False ga
              = Inr ((vy, vx), g1)"
    using v unfolding s by (subst generate_all_lines_cong[where t = ?s2]) simp_all
  have "self1\<lparr>horizontal_lines_xs := hx, horizontal_lines_ys := hy,
              vertical_lines_ys := vy, vertical_lines_xs := vx\<rparr> = self1"
    unfolding s by simp
  then show ?thesis
    by (simp add: make_lines_def Let_def st h' v')
qed

lemma generate_row_col_lines_stateless:
  assumes "\<forall>g a. snd (src g a) = g" "generate_row_col_lines src s iter g = Inr (r, g')"
  shows "g' = g"
proof -
  obtain j where "random_choice src (np_arange (line_length s + line_gap s)) g = Inr (j, g')"
    using assms(2) by (auto simp: generate_row_col_lines_def split: sum.splits)
  then have "snd (src g (np_arange (line_length s + line_gap s))) = g'"
    by (auto simp: random_choice_def split: if_splits)
  then show ?thesis using assms(1) by simp
qed

lemma all_lines_loop_stateless:
  assumes "\<forall>g a. snd (src g a) = g" "all_lines_loop src s rcs acc g = Inr (r, g')"
  shows "g' = g"
  using assms(2)
proof (induction rcs arbitrary: acc g)
  case Nil
  then show ?case by simp
next
  case (Cons x rcs)
  from Cons.prems obtain a b g1 where
    row: "generate_row_col_lines src s x g = Inr ((a, b), g1)"
    by (auto split: sum.splits)
  have g1: "g1 = g" by (rule generate_row_col_lines_stateless[OF assms(1) row])
  from Cons.prems row obtain acc' where "all_lines_loop src s rcs acc' g1 = Inr (r, g')"
    by (auto split: if_splits option.splits)
  then have "g' = g1" by (rule Cons.IH)
  then show ?case using g1 by simp
qed

lemma generate_all_lines_stateless:
  assumes "\<forall>g a. snd (src g a) = g" "generate_all_lines src s horizontal g = Inr (r, g')"
  shows "g' = g"
proof -
  from assms(2) obtain sel acc where "all_lines_loop src s sel None g = Inr (acc, g')"
    by (auto simp: generate_all_lines_def Let_def split: sum.splits option.splits)
  then show ?thesis by (rule all_lines_loop_stateless[OF assms(1)])
qed

lemma make_lines_stateless:
  assumes "\<forall>g a. snd (src g a) = g" "make_lines src ll lg rd cd self g = Inr (self1, g1)"
  shows "g1 = g"
proof -
  let ?s1 = "store_arguments ll lg rd cd self"
  obtain hx hy ga where h: "generate_all_lines src ?s1 True g = Inr ((hx, hy), ga)"
    using assms(2) by (auto simp: make_lines_def Let_def split: sum.splits)
  obtain r where v: "generate_all_lines src
      (?s1\<lparr>horizontal_lines_xs := hx, horizontal_lines_ys := hy\<rparr>) False ga = Inr (r, g1)"
    using assms(2) h by (auto simp: make_lines_def Let_def split: sum.splits)
  have "ga = g" by (rule generate_all_lines_stateless[OF assms(1) h])
  moreover have "g1 = ga" by (rule generate_all_lines_stateless[OF assms(1) v])
  ultimately show ?thesis by simp
qed

lemma stateless_first_source: "\<forall>g a. snd (first_source g a) = g"
  by (simp add: first_source_def)

lemma snd_draws_counting: "snd (draws counting_source a k g) = g + k"
  by (induction k arbitrary: g) (simp_all add: counting_source_def)

lemma fst_draws_counting:
  "fst (draws counting_source a (Suc k) g)
     = a ! (g mod length a) # fst (draws counting_source a k (Suc g))"
  by (simp add: counting_source_def)

lemma first_of_row_segments:
  assumes "j + L < n" "0 < L + G"
  shows "row_segments n L G j
           = (j, j + L) # map (\<lambda>k. (j + int k * (L + G), j + L + int k * (L + G)))
                            [Suc 0..<count_from n (j + L) (L + G)]"
proof -
  have "0 \<le> (n - (j + L) - 1) div (L + G)"
    using assms by (simp add: pos_imp_zdiv_nonneg_iff)
  then have "0 < count_from n (j + L) (L + G)" using assms by (simp add: count_from_def)
  then have "[0..<count_from n (j + L) (L + G)] = 0 # [Suc 0..<count_from n (j + L) (L + G)]"
    by (rule upt_conv_Cons)
  then show ?thesis by (simp add: row_segments_def)
qed

lemma make_lines_counting:
  assumes "rows_cols self = np_arange 3000"
  shows "\<exists>self'.
           make_lines counting_source (Some 200) (Some 50) (Some 80) (Some 80) self g
             = Inr (self', g + 300) \<and>
           rows_cols self' = np_arange 3000 \<and>
           hd (horizontal_lines_xs self') = (int (g mod 250), int (g mod 250) + 200)"
proof -
  let ?s1 = "store_arguments (Some 200) (Some 50) (Some 80) (Some 80) self"
  let ?a = "np_arange (line_length ?s1 + line_gap ?s1)"
  let ?rows = "selected_indices 3000 (row_density ?s1)"
  let ?cols = "selected_indices 3000 (column_density ?s1)"
  let ?g1 = "snd (draws counting_source ?a (length ?rows) g)"
  let ?hx = "concat (map (row_segments 3000 (line_length ?s1) (line_gap ?s1))
                      (fst (draws counting_source ?a (length ?rows) g)))"
  let ?self' = "?s1\<lparr> horizontal_lines_xs := ?hx,
                  horizontal_lines_ys :=
                    concat (map2 (row_marks 3000 (line_length ?s1) (line_gap ?s1)) ?rows
                      (fst (draws counting_source ?a (length ?rows) g))),
                  vertical_lines_ys :=
                    concat (map (row_segments 3000 (line_length ?s1) (line_gap ?s1))
                      (fst (draws counting_source ?a (length ?cols) ?g1))),
                  vertical_lines_xs :=
                    concat (map2 (row_marks 3000 (line_length ?s1) (line_gap ?s1)) ?cols
                      (fst (draws counting_source ?a (length ?cols) ?g1))) \<rparr>"
  have f: "line_length ?s1 = 200" "line_gap ?s1 = 50" "row_density ?s1 = 20"
    "column_density ?s1 = 20"
    by (simp_all add: store_arguments_fields)
  have m: "make_lines counting_source (Some 200) (Some 50) (Some 80) (Some 80) self g
             = Inr (?self', snd (draws counting_source ?a (length ?cols) ?g1))"
    by (rule make_lines_valid[OF valid_counting_source assms _ refl _ _ _ _ _ refl refl refl refl])
       (simp_all add: f)
  have len: "length (selected_indices 3000 20) = Suc 149"
    by (simp add: demo_selected)
  have g': "snd (draws counting_source ?a (length ?cols) ?g1) = g + 300"
    by (simp add: snd_draws_counting f len)
  have j: "np_arange 250 ! (g mod 250) = int (g mod 250)"
    by (rule np_arange_nth) simp
  have seg: "row_segments 3000 200 50 (int (g mod 250))
               = (int (g mod 250), int (g mod 250) + 200)
                 # map (\<lambda>k. (int (g mod 250) + int k * (200 + 50),
                              int (g mod 250) + 200 + int k * (200 + 50)))
                     [Suc 0..<count_from 3000 (int (g mod 250) + 200) (200 + 50)]"
    by (rule first_of_row_segments) simp_all
  have "?hx = concat (map (row_segments 3000 200 50)
                (fst (draws counting_source (np_arange 250) (Suc 149) g)))"
    by (simp only: f len) simp
  also have "hd \<dots> = (int (g mod 250), int (g mod 250) + 200)"
    unfolding fst_draws_counting by (simp add: length_np_arange j seg)
  finally have hd: "hd (horizontal_lines_xs ?self') = (int (g mod 250), int (g mod 250) + 200)"
    by simp
  have rc: "rows_cols ?self' = np_arange 3000"
    by (simp add: store_arguments_frame assms)
  show ?thesis
    using m g' hd rc by (intro exI[of _ ?self']) (simp del: draws.simps)
qed

text \<open>
  Claim C8, as amended. \<open>make_lines\<close> is a function of the object, its arguments and the
  state of the random source. When a call returns, the same call on the object it returned,
  with the source in the state it had at the start of the first call, returns the same
  object and the same source state. In particular, for a source without state (its
  choices do not depend on earlier choices), a second call in succession leaves the four
  line attributes as the first call left them.
\<close>

theorem regeneration_repeats_from_the_same_source_state:
  "(make_lines src ll lg rd cd self g = Inr (self1, g1) \<longrightarrow>
      make_lines src ll lg rd cd self1 g = Inr (self1, g1)) \<and>
   ((\<forall>g a. snd (src g a) = g) \<and> make_lines src ll lg rd cd self g = Inr (self1, g1) \<longrightarrow>
      (\<exists>self2 g2. make_lines src ll lg rd cd self1 g1 = Inr (self2, g2) \<and>
         horizontal_lines_xs self2 = horizontal_lines_xs self1 \<and>
         horizontal_lines_ys self2 = horizontal_lines_ys self1 \<and>
         vertical_lines_ys self2 = vertical_lines_ys self1 \<and>
         vertical_lines_xs self2 = vertical_lines_xs self1))"
proof (intro conjI impI)
  assume "make_lines src ll lg rd cd self g = Inr (self1, g1)"
  then show "make_lines src ll lg rd cd self1 g = Inr (self1, g1)"
    by (rule make_lines_same_source_state)
next
  assume a: "(\<forall>g a. snd (src g a) = g) \<and> make_lines src ll lg rd cd self g = Inr (self1, g1)"
  then have "g1 = g"
    using make_lines_stateless[of src ll lg rd cd self g self1 g1] by simp
  moreover have "make_lines src ll lg rd cd self1 g = Inr (self1, g1)"
    using a make_lines_same_source_state[of src ll lg rd cd self g self1 g1] by simp
  ultimately have "make_lines src ll lg rd cd self1 g1 = Inr (self1, g1)" by simp
  then show "\<exists>self2 g2. make_lines src ll lg rd cd self1 g1 = Inr (self2, g2) \<and>
         horizontal_lines_xs self2 = horizontal_lines_xs self1 \<and>
         horizontal_lines_ys self2 = horizontal_lines_ys self1 \<and>
         vertical_lines_ys self2 = vertical_lines_ys self1 \<and>
         vertical_lines_xs self2 = vertical_lines_xs self1"
    by blast
qed

theorem regeneration_repeats_from_the_same_source_state_witness:
  "(\<forall>g a. snd (first_source g a) = g) \<and>
   (\<exists>self1 g1 self2 g2.
      make_lines first_source (Some 200) (Some 50) (Some 80) (Some 80)
        (initial_attributes 250 50 80 80) () = Inr (self1, g1) \<and>
      make_lines first_source (Some 200) (Some 50) (Some 80) (Some 80) self1 g1
        = Inr (self2, g2) \<and>
      horizontal_lines_xs self2 = horizontal_lines_xs self1 \<and>
      vertical_lines_ys self2 = vertical_lines_ys self1)"
proof -
  obtain self1 g1 where m:
    "make_lines first_source (Some 200) (Some 50) (Some 80) (Some 80)
        (initial_attributes 250 50 80 80) () = Inr (self1, g1)"
    using make_lines_valid
      [OF valid_first_source, where self = "initial_attributes 250 50 80 80" and n = 3000
         and ll = "Some 200" and lg = "Some 50" and rd = "Some 80" and cd = "Some 80"
         and g = "()"]
    by (simp add: store_arguments_fields initial_attributes_simps)
  obtain self2 g2 where
    "make_lines first_source (Some 200) (Some 50) (Some 80) (Some 80) self1 g1
        = Inr (self2, g2)"
    "horizontal_lines_xs self2 = horizontal_lines_xs self1"
    "vertical_lines_ys self2 = vertical_lines_ys self1"
    using regeneration_repeats_from_the_same_source_state
      [where src = first_source and ll = "Some 200" and lg = "Some 50" and rd = "Some 80"
         and cd = "Some 80" and self = "initial_attributes 250 50 80 80" and g = "()"
         and ?self1.0 = self1 and ?g1.0 = g1] m stateless_first_source
    by blast
  with m stateless_first_source show ?thesis by blast
qed

text \<open>
  Claim C8 as stated fails for a deterministic source with state: with the source that
  walks through the array, \<open>LineFactory(200, 50, 80, 80)\<close> followed by two calls
  \<open>make_lines(200, 50, 80, 80)\<close> gives horizontal lines that start with \<open>(50, 250)\<close> after the
  first call and with \<open>(100, 300)\<close> after the second.
\<close>

theorem successive_regenerations_counterexample:
  "(case LineFactory_init counting_source 200 50 80 80 0 of
      Inl e \<Rightarrow> False
    | Inr (self0, g0) \<Rightarrow>
        (case make_lines counting_source (Some 200) (Some 50) (Some 80) (Some 80) self0 g0 of
           Inl r \<Rightarrow> False
         | Inr (self1, g1) \<Rightarrow>
             (case make_lines counting_source (Some 200) (Some 50) (Some 80) (Some 80) self1 g1 of
                Inl r \<Rightarrow> False
              | Inr (self2, g2) \<Rightarrow>
                  hd (horizontal_lines_xs self1) = (50, 250) \<and>
                  hd (horizontal_lines_xs self2) = (100, 300) \<and>
                  horizontal_lines_xs self2 \<noteq> horizontal_lines_xs self1)))"
proof -
  obtain self0 g0 where i: "LineFactory_init counting_source 200 50 80 80 0 = Inr (self0, g0)"
    using LineFactory_init_valid[OF valid_counting_source, of 200 50 80 80 _ _ _ _ 0]
    by simp
  then have m0: "make_lines counting_source None None None None (initial_attributes 200 50 80 80) 0
                 = Inr (self0, g0)"
    by (auto simp: LineFactory_init_def split: sum.splits)
  have rc0: "rows_cols self0 = np_arange 3000"
    using make_lines_within(2)[OF m0] by (simp add: initial_attributes_simps)
  have "g0 = 300"
  proof -
    have "LineFactory_init counting_source 200 50 80 80 0
            = Inr (initial_attributes 200 50 80 80
                \<lparr> horizontal_lines_xs :=
                    concat (map (row_segments 3000 200 50)
                      (fst (draws counting_source (np_arange (200 + 50))
                         (length (selected_indices 3000 (100 - 80))) 0))),
                  horizontal_lines_ys :=
                    concat (map2 (row_marks 3000 200 50) (selected_indices 3000 (100 - 80))
                      (fst (draws counting_source (np_arange (200 + 50))
                         (length (selected_indices 3000 (100 - 80))) 0))),
                  vertical_lines_ys :=
                    concat (map (row_segments 3000 200 50)
                      (fst (draws counting_source (np_arange (200 + 50))
                         (length (selected_indices 3000 (100 - 80)))
                         (snd (draws counting_source (np_arange (200 + 50))
                            (length (selected_indices 3000 (100 - 80))) 0))))),
                  vertical_lines_xs :=
                    concat (map2 (row_marks 3000 200 50) (selected_indices 3000 (100 - 80))
                      (fst (draws counting_source (np_arange (200 + 50))
                         (length (selected_indices 3000 (100 - 80)))
                         (snd (draws counting_source (np_arange (200 + 50))
                            (length (selected_indices 3000 (100 - 80))) 0))))) \<rparr>,
                snd (draws counting_source (np_arange (200 + 50))
                       (length (selected_indices 3000 (100 - 80)))
                       (snd (draws counting_source (np_arange (200 + 50))
                          (length (selected_indices 3000 (100 - 80))) 0))))"
      by (rule LineFactory_init_valid[OF valid_counting_source]) simp_all
    then have "g0 = snd (draws counting_source (np_arange (200 + 50))
                       (length (selected_indices 3000 (100 - 80)))
                       (snd (draws counting_source (np_arange (200 + 50))
                          (length (selected_indices 3000 (100 - 80))) 0)))"
      using i by simp
    then show ?thesis by (simp add: snd_draws_counting demo_selected)
  qed
  obtain self1 where m1:
    "make_lines counting_source (Some 200) (Some 50) (Some 80) (Some 80) self0 300
       = Inr (self1, 300 + 300)"
    and rc1: "rows_cols self1 = np_arange 3000"
    and h1: "hd (horizontal_lines_xs self1) = (int (300 mod 250), int (300 mod 250) + 200)"
    using make_lines_counting[OF rc0, of 300] by blast
  obtain self2 where m2:
    "make_lines counting_source (Some 200) (Some 50) (Some 80) (Some 80) self1 600
       = Inr (self2, 600 + 300)"
    and h2: "hd (horizontal_lines_xs self2) = (int (600 mod 250), int (600 mod 250) + 200)"
    using make_lines_counting[OF rc1, of 600] by blast
  have "hd (horizontal_lines_xs self1) = (50, 250)" using h1 by simp
  moreover have "hd (horizontal_lines_xs self2) = (100, 300)" using h2 by simp
  ultimately have "horizontal_lines_xs self2 \<noteq> horizontal_lines_xs self1"
    by auto
  then show ?thesis
    using i \<open>g0 = 300\<close> m1 m2 \<open>hd (horizontal_lines_xs self1) = (50, 250)\<close>
      \<open>hd (horizontal_lines_xs self2) = (100, 300)\<close>
    by simp
qed

section \<open>Row density and the rows of the horizontal pass\<close>

lemma generate_all_lines_counting:
  assumes rc: "rows_cols self = np_arange 3000"
    and L: "0 \<le> line_length self" and G: "0 \<le> line_gap self"
    and pos: "0 < line_length self + line_gap self"
    and dpos: "0 < row_density self"
  shows "\<exists>lines. generate_all_lines counting_source self True k
                   = Inr (lines, k + count_from 3000 0 (row_density self))"
proof -
  let ?a = "np_arange (line_length self + line_gap self)"
  let ?n = "length (selected_indices 3000 (row_density self))"
  have "generate_all_lines counting_source self True k =
          Inr ((concat (map (row_segments 3000 (line_length self) (line_gap self))
                     (fst (draws counting_source ?a ?n k))),
                concat (map2 (row_marks 3000 (line_length self) (line_gap self))
                     (selected_indices 3000 (row_density self))
                     (fst (draws counting_source ?a ?n k)))),
               snd (draws counting_source ?a ?n k))"
    by (rule generate_all_lines_valid[OF rc _ L G pos valid_counting_source _ dpos]) simp_all
  then show ?thesis
    by (simp add: snd_draws_counting length_selected_indices del: draws.simps)
qed

text \<open>
  Claim C7. Two objects are constructed with the same valid length, gap and column
  density, and with row densities \<open>d1 < d2\<close> in \<open>[0, 90]\<close>. The constructor stores
  \<open>100 - d1\<close> and \<open>100 - d2\<close>, so the stored row density of the second is strictly smaller.
  The horizontal pass \<open>_generate_all_lines(horizontal=True)\<close> draws one jitter per selected
  row; run on each object with the source that counts its draws, it makes exactly as many
  draws as \<open>rows_cols[::row_density]\<close> has indices, that is \<open>2999 div (100 - d) + 1\<close>, and the
  second object's pass selects at least as many rows as the first's.
\<close>

theorem higher_row_density_selects_no_fewer_rows:
  assumes src: "valid_source src"
    and L: "0 \<le> ll" and G: "0 \<le> lg" and nz: "\<not> (ll = 0 \<and> lg = 0)"
    and cd: "0 \<le> column_arg" "column_arg \<le> 90"
    and d: "0 \<le> d1" "d1 < d2" "d2 \<le> 90"
  shows "\<exists>self1 g1 self2 g2 rows1 rows2 lines1 lines2.
           LineFactory_init src ll lg column_arg d1 g = Inr (self1, g1) \<and>
           LineFactory_init src ll lg column_arg d2 g = Inr (self2, g2) \<and>
           row_density self1 = 100 - d1 \<and> row_density self2 = 100 - d2 \<and>
           row_density self2 < row_density self1 \<and>
           slice_from (rows_cols self1) None (row_density self1) = Inr rows1 \<and>
           slice_from (rows_cols self2) None (row_density self2) = Inr rows2 \<and>
           generate_all_lines counting_source self1 True k = Inr (lines1, k + length rows1) \<and>
           generate_all_lines counting_source self2 True k = Inr (lines2, k + length rows2) \<and>
           length rows1 = nat (2999 div (100 - d1) + 1) \<and>
           length rows2 = nat (2999 div (100 - d2) + 1) \<and>
           length rows1 \<le> length rows2"
proof -
  have pos: "0 < ll + lg" using L G nz by linarith
  have constructed:
    "\<exists>self' g' rows lines.
       LineFactory_init src ll lg column_arg rd g = Inr (self', g') \<and>
       row_density self' = 100 - rd \<and>
       slice_from (rows_cols self') None (row_density self') = Inr rows \<and>
       generate_all_lines counting_source self' True k = Inr (lines, k + length rows) \<and>
       length rows = count_from 3000 0 (100 - rd)"
    if rd: "0 \<le> rd" "rd \<le> 90" for rd
  proof -
    obtain self' g' where i: "LineFactory_init src ll lg column_arg rd g = Inr (self', g')"
      using LineFactory_init_valid[OF src L G pos, of rd column_arg _ _ _ _ g] rd cd
      by simp
    then have m: "make_lines src None None None None (initial_attributes ll lg column_arg rd) g
                    = Inr (self', g')"
      by (simp add: LineFactory_init_cases)
    then have "object_after (make_lines src None None None None
                 (initial_attributes ll lg column_arg rd) g) = self'"
      by (simp add: object_after_def)
    then have f: "rows_cols self' = np_arange 3000" "line_length self' = ll"
        "line_gap self' = lg" "row_density self' = 100 - rd"
      using make_lines_object_after
        [of src None None None None "initial_attributes ll lg column_arg rd" g]
      by (simp_all add: initial_attributes_simps)
    have dpos: "0 < row_density self'" using f rd by simp
    have sel: "slice_from (rows_cols self') None (row_density self')
                 = Inr (selected_indices 3000 (100 - rd))"
      using dpos f by (simp add: slice_arange_all selected_indices_def)
    obtain lines where
      "generate_all_lines counting_source self' True k
         = Inr (lines, k + count_from 3000 0 (row_density self'))"
      using generate_all_lines_counting[of self' k] f L G pos dpos by auto
    then have "generate_all_lines counting_source self' True k
         = Inr (lines, k + length (selected_indices 3000 (100 - rd)))"
      using f by (simp add: length_selected_indices)
    with i f sel show ?thesis
      using length_selected_indices by blast
  qed
  obtain self1 g1 rows1 lines1 where c1:
    "LineFactory_init src ll lg column_arg d1 g = Inr (self1, g1)"
    "row_density self1 = 100 - d1"
    "slice_from (rows_cols self1) None (row_density self1) = Inr rows1"
    "generate_all_lines counting_source self1 True k = Inr (lines1, k + length rows1)"
    "length rows1 = count_from 3000 0 (100 - d1)"
    using constructed[of d1] d by auto
  obtain self2 g2 rows2 lines2 where c2:
    "LineFactory_init src ll lg column_arg d2 g = Inr (self2, g2)"
    "row_density self2 = 100 - d2"
    "slice_from (rows_cols self2) None (row_density self2) = Inr rows2"
    "generate_all_lines counting_source self2 True k = Inr (lines2, k + length rows2)"
    "length rows2 = count_from 3000 0 (100 - d2)"
    using constructed[of d2] d by auto
  have n1: "length rows1 = nat (2999 div (100 - d1) + 1)"
    using c1(5) by (simp add: count_from_def)
  have n2: "length rows2 = nat (2999 div (100 - d2) + 1)"
    using c2(5) by (simp add: count_from_def)
  have le: "length rows1 \<le> length rows2"
    unfolding c1(5) c2(5) using d by (intro count_from_antimono) auto
  have lt: "row_density self2 < row_density self1"
    using c1(2) c2(2) d by simp
  show ?thesis
    using c1(1-4) c2(1-4) n1 n2 le lt by blast
qed

theorem higher_row_density_selects_no_fewer_rows_witness:
  "valid_source first_source \<and>
   (\<exists>self1 g1 self2 g2 lines1 lines2.
      LineFactory_init first_source 250 50 80 50 () = Inr (self1, g1) \<and>
      LineFactory_init first_source 250 50 80 80 () = Inr (self2, g2) \<and>
      row_density self1 = 50 \<and> row_density self2 = 20 \<and>
      generate_all_lines counting_source self1 True 0 = Inr (lines1, 60) \<and>
      generate_all_lines counting_source self2 True 0 = Inr (lines2, 150))"
proof -
  have "\<exists>self1 g1 self2 g2 rows1 rows2 lines1 lines2.
           LineFactory_init first_source 250 50 80 50 () = Inr (self1, g1) \<and>
           LineFactory_init first_source 250 50 80 80 () = Inr (self2, g2) \<and>
           row_density self1 = 100 - 50 \<and> row_density self2 = 100 - 80 \<and>
           row_density self2 < row_density self1 \<and>
           slice_from (rows_cols self1) None (row_density self1) = Inr rows1 \<and>
           slice_from (rows_cols self2) None (row_density self2) = Inr rows2 \<and>
           generate_all_lines counting_source self1 True 0 = Inr (lines1, 0 + length rows1) \<and>
           generate_all_lines counting_source self2 True 0 = Inr (lines2, 0 + length rows2) \<and>
           length rows1 = nat (2999 div (100 - 50) + 1) \<and>
           length rows2 = nat (2999 div (100 - 80) + 1) \<and>
           length rows1 \<le> length rows2"
    by (rule higher_row_density_selects_no_fewer_rows[OF valid_first_source]) simp_all
  then obtain self1 g1 self2 g2 rows1 rows2 lines1 lines2 where
    i1: "LineFactory_init first_source 250 50 80 50 () = Inr (self1, g1)" and
    i2: "LineFactory_init first_source 250 50 80 80 () = Inr (self2, g2)" and
    r1: "row_density self1 = 100 - 50" and r2: "row_density self2 = 100 - 80" and
    lt: "row_density self2 < row_density self1" and
    s1: "slice_from (rows_cols self1) None (row_density self1) = Inr rows1" and
    s2: "slice_from (rows_cols self2) None (row_density self2) = Inr rows2" and
    h1: "generate_all_lines counting_source self1 True 0 = Inr (lines1, 0 + length rows1)" and
    h2: "generate_all_lines counting_source self2 True 0 = Inr (lines2, 0 + length rows2)" and
    n1: "length rows1 = nat (2999 div (100 - 50) + 1)" and
    n2: "length rows2 = nat (2999 div (100 - 80) + 1)"
    by (elim exE conjE) (rule that, assumption+)
  have "generate_all_lines counting_source self1 True 0 = Inr (lines1, 60)"
    using h1 n1 by simp
  moreover have "generate_all_lines counting_source self2 True 0 = Inr (lines2, 150)"
    using h2 n2 by simp
  moreover have "row_density self1 = 50" "row_density self2 = 20"
    using r1 r2 by simp_all
  ultimately show ?thesis
    using i1 i2 valid_first_source
    by (intro conjI exI[of _ self1] exI[of _ g1] exI[of _ self2] exI[of _ g2]
          exI[of _ lines1] exI[of _ lines2])
qed

end
